theory Spec2Isabelle
  imports Complex_Main "HOL-Library.Char_ord" "HOL-Library.List_Lexorder"
begin

section \<open>Values\<close>

text \<open>
  The values that travel through \<^verbatim>\<open>app.py\<close>: what \<^verbatim>\<open>request.get_json()\<close> returns, what
  \<^verbatim>\<open>jsonify\<close> is given, and what the \<^verbatim>\<open>extra\<close> mapping of a log call holds. They are
  Python's JSON values: \<open>JNull\<close> is \<^verbatim>\<open>None\<close>, \<open>JInt\<close> an \<^verbatim>\<open>int\<close>, \<open>JFloat\<close> a
  \<^verbatim>\<open>float\<close> (read as a real number), \<open>JObj\<close> a \<^verbatim>\<open>dict\<close> written as its items in order.
\<close>

datatype json =
    JNull
  | JBool bool
  | JInt int
  | JFloat real
  | JStr string
  | JArr "json list"
  | JObj "(string \<times> json) list"

text \<open>
  The exceptions that can be raised while a request is handled. \<open>NotFound\<close> is the
  framework's HTTP exception for status 404; the others are Python's own.
\<close>

datatype py_error = AttributeError | TypeError | ValueError | OverflowError | NotFound

text \<open>
  \<^verbatim>\<open>order_data.get(key, default)\<close>. Only a \<^verbatim>\<open>dict\<close> has the method \<^verbatim>\<open>get\<close>; on \<^verbatim>\<open>None\<close>, a
  list, a string or a number the attribute lookup raises \<^verbatim>\<open>AttributeError\<close>. Where a JSON
  object repeats a key, Python's parser keeps the last value.
\<close>

fun py_get :: "json \<Rightarrow> string \<Rightarrow> json \<Rightarrow> py_error + json" where
  "py_get (JObj items) k d = Inr (case map_of (rev items) k of None \<Rightarrow> d | Some v \<Rightarrow> v)"
| "py_get _ k d = Inl AttributeError"

text \<open>
  \<^verbatim>\<open>x + amount\<close> for a float \<open>x\<close>: the number the Python value \<open>amount\<close> stands for in float
  arithmetic (\<^verbatim>\<open>bool\<close> is a subclass of \<^verbatim>\<open>int\<close>). An \<^verbatim>\<open>int\<close> is converted to a float first, which
  raises \<^verbatim>\<open>OverflowError\<close> when it rounds to \<open>2\<^sup>1\<^sup>0\<^sup>2\<^sup>4\<close> or beyond, that is from
  \<open>2\<^sup>1\<^sup>0\<^sup>2\<^sup>4 - 2\<^sup>9\<^sup>7\<^sup>0\<close> on; a value that is not a number raises \<^verbatim>\<open>TypeError\<close>.
\<close>

fun py_number :: "json \<Rightarrow> py_error + real" where
  "py_number (JInt i) =
     (if \<bar>i\<bar> < 2 ^ 1024 - 2 ^ 970 then Inr (real_of_int i) else Inl OverflowError)"
| "py_number (JFloat x) = Inr x"
| "py_number (JBool b) = Inr (of_bool b)"
| "py_number _ = Inl TypeError"

section \<open>Simulation Engine\<close>

text \<open>
  Modelled from the spec: the Simulation Engine is Python's \<^verbatim>\<open>random\<close> module, which is not
  part of the repository. Section 4.3 of the specification lists its helpers: a uniform
  real, a uniform integer in an inclusive range, and a uniform pick from a list. Each is
  written here as a function of one raw draw \<open>r\<close> of the generator, a natural number:
  \<^item> \<^verbatim>\<open>random.random()\<close> is a multiple of \<open>2\<^sup>-\<^sup>5\<^sup>3\<close> in \<open>[0, 1)\<close>;
  \<^item> \<^verbatim>\<open>random.uniform(a, b)\<close> is \<^verbatim>\<open>a + (b - a) * random()\<close>;
  \<^item> \<^verbatim>\<open>random.randint(a, b)\<close> is \<open>a\<close> plus a number below \<open>b - a + 1\<close>;
  \<^item> \<^verbatim>\<open>random.choice(seq)\<close> is \<^verbatim>\<open>seq[i]\<close> for a number \<open>i\<close> below \<^verbatim>\<open>len(seq)\<close>.
  Raw draws that are equally likely over a range \<open>{..<m * n}\<close> give every one of the \<open>n\<close>
  outcomes the same number of times. Every call in \<^verbatim>\<open>app.py\<close> has constant arguments with
  \<open>a \<le> b\<close> and a list of three elements, so the \<^verbatim>\<open>ValueError\<close> of an empty range and the
  \<^verbatim>\<open>IndexError\<close> of an empty list cannot occur and are not modelled.
\<close>

definition random_random :: "nat \<Rightarrow> real" where
  "random_random r = real (r mod 2 ^ 53) / 2 ^ 53"

definition random_uniform :: "real \<Rightarrow> real \<Rightarrow> nat \<Rightarrow> real" where
  "random_uniform a b r = a + (b - a) * random_random r"

definition random_randint :: "int \<Rightarrow> int \<Rightarrow> nat \<Rightarrow> int" where
  "random_randint a b r = a + int (r mod nat (b - a + 1))"

definition random_choice :: "'a list \<Rightarrow> nat \<Rightarrow> 'a" where
  "random_choice seq r = seq ! (r mod length seq)"

section \<open>Telemetry Registry\<close>

text \<open>
  Modelled from the spec: the instruments are \<^verbatim>\<open>prometheus_client\<close>'s \<^verbatim>\<open>Counter\<close>,
  \<^verbatim>\<open>Histogram\<close> and \<^verbatim>\<open>Gauge\<close>, which are not part of the repository. Section 4.1 of the
  specification gives their contract: an instrument has a name and label names;
  \<^verbatim>\<open>increment\<close> adds a delta that must not be negative to a counter's value for a label
  combination; \<^verbatim>\<open>observe\<close> appends a value to a histogram's samples for a label
  combination; a gauge holds one value that \<^verbatim>\<open>set\<close> replaces and \<^verbatim>\<open>add\<close> moves either way.
  A label combination is the list of its (label name, value) pairs; the child of a labelled
  instrument exists from the first \<^verbatim>\<open>.labels(...)\<close> call that names it, and an instrument
  without label names has the one combination \<open>[]\<close> from the start.
\<close>

type_synonym labels = "(string \<times> string) list"

record counter =
  c_name :: string
  c_labelnames :: "string list"
  c_children :: "(labels \<times> real) list"

record histogram =
  h_name :: string
  h_labelnames :: "string list"
  h_children :: "(labels \<times> real list) list"

record gauge =
  g_name :: string
  g_current :: real

definition Counter :: "string \<Rightarrow> string list \<Rightarrow> counter" where
  "Counter name labelnames =
     \<lparr>c_name = name, c_labelnames = labelnames,
      c_children = (if labelnames = [] then [([], 0)] else [])\<rparr>"

definition Histogram :: "string \<Rightarrow> string list \<Rightarrow> histogram" where
  "Histogram name labelnames =
     \<lparr>h_name = name, h_labelnames = labelnames,
      h_children = (if labelnames = [] then [([], [])] else [])\<rparr>"

definition Gauge :: "string \<Rightarrow> gauge" where
  "Gauge name = \<lparr>g_name = name, g_current = 0\<rparr>"

text \<open>The value of a counter and the samples of a histogram for a label combination.\<close>

definition counter_value :: "counter \<Rightarrow> labels \<Rightarrow> real" where
  "counter_value c l = (case map_of (c_children c) l of None \<Rightarrow> 0 | Some v \<Rightarrow> v)"

definition histogram_samples :: "histogram \<Rightarrow> labels \<Rightarrow> real list" where
  "histogram_samples h l = (case map_of (h_children h) l of None \<Rightarrow> [] | Some vs \<Rightarrow> vs)"

text \<open>
  \<open>put l v kvs\<close> stores \<open>v\<close> for the label combination \<open>l\<close>: in place when the child
  exists, as a new last child otherwise.
\<close>

fun put :: "labels \<Rightarrow> 'v \<Rightarrow> (labels \<times> 'v) list \<Rightarrow> (labels \<times> 'v) list" where
  "put l v [] = [(l, v)]"
| "put l v ((l', v') # kvs) = (if l' = l then (l, v) # kvs else (l', v') # put l v kvs)"

text \<open>
  \<^verbatim>\<open>counter.labels(**l).inc(amount)\<close>: a negative amount is refused with \<^verbatim>\<open>ValueError\<close>
  (the specification's \<^verbatim>\<open>InvalidOperation\<close>) and the counter is left as it was.
\<close>

definition counter_inc :: "labels \<Rightarrow> real \<Rightarrow> counter \<Rightarrow> py_error + counter" where
  "counter_inc l amount c =
     (if amount < 0 then Inl ValueError
      else Inr (c\<lparr>c_children := put l (counter_value c l + amount) (c_children c)\<rparr>))"

text \<open>
  \<^verbatim>\<open>histogram.labels(**l).observe(amount)\<close>. The amount is added to the child's float sum,
  which raises for a value that float arithmetic does not take; the child named by
  \<^verbatim>\<open>.labels(...)\<close> exists by then.
\<close>

definition histogram_observe :: "labels \<Rightarrow> json \<Rightarrow> histogram \<Rightarrow> histogram \<times> (py_error + unit)" where
  "histogram_observe l amount h =
     (let h' = h\<lparr>h_children := put l (histogram_samples h l) (h_children h)\<rparr> in
      case py_number amount of
        Inl error \<Rightarrow> (h', Inl error)
      | Inr x \<Rightarrow> (h\<lparr>h_children := put l (histogram_samples h l @ [x]) (h_children h)\<rparr>, Inr ()))"

definition gauge_set :: "real \<Rightarrow> gauge \<Rightarrow> gauge" where
  "gauge_set v g = g\<lparr>g_current := v\<rparr>"

definition gauge_inc :: "real \<Rightarrow> gauge \<Rightarrow> gauge" where
  "gauge_inc amount g = g\<lparr>g_current := g_current g + amount\<rparr>"

section \<open>The metrics snapshot\<close>

text \<open>
  Modelled from the spec: \<^verbatim>\<open>prometheus_client.generate_latest\<close> is not part of the
  repository. Sections 4.1 and 6 of the specification describe the snapshot: for each
  instrument, sorted by name, a \<^verbatim>\<open># TYPE <name> <kind>\<close> line followed by one line
  \<^verbatim>\<open><name>{label="value",...} <value>\<close> per label combination. A \<open>family\<close> is one
  instrument's block and a \<open>sample\<close> one of its lines. A histogram's lines give, per label
  combination, the number of its samples and their sum (the bucket lines are left out).
  The registry holds the instruments \<^verbatim>\<open>app.py\<close> creates and the collectors the libraries
  register on their own (\<^verbatim>\<open>prometheus_client\<close>'s process, platform and garbage-collection
  collectors, the exporter's request metrics). What those collectors report is not kept in
  the instruments of \<^verbatim>\<open>app.py\<close>: it is read from the running process each time the
  registry is collected.
\<close>

datatype kind = Kind_counter | Kind_histogram | Kind_gauge

datatype sample = Sample string labels real

record family =
  f_name :: string
  f_kind :: kind
  f_samples :: "sample list"

definition collect_counter :: "counter \<Rightarrow> family" where
  "collect_counter c =
     \<lparr>f_name = c_name c, f_kind = Kind_counter,
      f_samples = map (\<lambda>(l, v). Sample (c_name c) l v) (c_children c)\<rparr>"

definition collect_histogram :: "histogram \<Rightarrow> family" where
  "collect_histogram h =
     \<lparr>f_name = h_name h, f_kind = Kind_histogram,
      f_samples = concat (map (\<lambda>(l, vs).
         [Sample (h_name h @ ''_count'') l (real (length vs)),
          Sample (h_name h @ ''_sum'') l (sum_list vs)]) (h_children h))\<rparr>"

definition collect_gauge :: "gauge \<Rightarrow> family" where
  "collect_gauge g =
     \<lparr>f_name = g_name g, f_kind = Kind_gauge, f_samples = [Sample (g_name g) [] (g_current g)]\<rparr>"

text \<open>
  \<^verbatim>\<open>metrics.info('flask_app_info', 'Flask Application Info', version='1.0.0')\<close>: a gauge
  with the label \<^verbatim>\<open>version\<close>, set to 1 once.
\<close>

definition flask_app_info :: family where
  "flask_app_info =
     \<lparr>f_name = ''flask_app_info'', f_kind = Kind_gauge,
      f_samples = [Sample ''flask_app_info'' [(''version'', ''1.0.0'')] 1]\<rparr>"

fun sample_name :: "sample \<Rightarrow> string" where
  "sample_name (Sample n l v) = n"

text \<open>The value a snapshot gives for a sample name and a label combination, when it has the line.\<close>

fun sample_lookup :: "sample list \<Rightarrow> string \<Rightarrow> labels \<Rightarrow> real option" where
  "sample_lookup [] n l = None"
| "sample_lookup (Sample n' l' v # ss) n l =
     (if n' = n \<and> l' = l then Some v else sample_lookup ss n l)"

definition snapshot_value :: "family list \<Rightarrow> string \<Rightarrow> labels \<Rightarrow> real option" where
  "snapshot_value snap n l = sample_lookup (concat (map f_samples snap)) n l"

section \<open>Process state, log events, requests and responses\<close>

datatype level = INFO | WARNING | ERROR

text \<open>
  A log message is text; the one f-string of \<^verbatim>\<open>app.py\<close> that formats a float
  (\<^verbatim>\<open>{duration:.2f}\<close>) keeps the number as \<open>Fixed2\<close>.
\<close>

datatype fragment = Text string | Fixed2 real

record log_event =
  e_level :: level
  e_message :: "fragment list"
  e_extra :: "(string \<times> json) list"

text \<open>
  The module's globals: the four instruments, \<^verbatim>\<open>_active_users_count\<close>, and the two things
  the handlers reach through the standard library: the wall clock that \<^verbatim>\<open>time.time()\<close>
  reads and \<^verbatim>\<open>time.sleep\<close> advances, and the records written through \<^verbatim>\<open>logger\<close>.
\<close>

record state =
  order_counter :: counter
  order_value :: histogram
  active_users :: gauge
  database_query_duration :: histogram
  active_users_count :: int
  clock :: real
  logger :: "log_event list"

text \<open>
  A response body: what \<^verbatim>\<open>jsonify\<close> built, the metrics snapshot, the bytes of a static file,
  or the body the framework writes itself when it answers without calling a handler of
  \<^verbatim>\<open>app.py\<close>. The response is the object the application returns; a server strips the body
  when the method is \<^verbatim>\<open>HEAD\<close>.
\<close>

datatype body = Json json | Exposition "family list" | File string | Framework_body

record response =
  status :: nat
  payload :: body

text \<open>
  A request as the handlers read it: \<^verbatim>\<open>request.method\<close>, \<^verbatim>\<open>request.path\<close>,
  \<^verbatim>\<open>request.headers.get('User-Agent')\<close> and the value \<^verbatim>\<open>request.get_json()\<close> returns
  (\<open>JNull\<close> for \<^verbatim>\<open>None\<close>, which is also what the body \<^verbatim>\<open>null\<close> parses to).
\<close>

record request =
  r_method :: string
  r_path :: string
  r_user_agent :: "string option"
  r_json :: json

text \<open>
  What one handler invocation reads from outside the process state:
  \<^item> the raw draws of the Simulation Engine in the order the invocation makes them
    (\<open>draws env 0\<close> is its first draw);
  \<^item> the text of \<^verbatim>\<open>datetime.utcnow().isoformat()\<close>;
  \<^item> the families that the libraries' own collectors report when the registry is
    collected during the invocation;
  \<^item> the response that the framework's \<^verbatim>\<open>send_static_file\<close> builds for a file name, and
    nothing for a name that is no file of the static folder.
\<close>

record env =
  draws :: "nat \<Rightarrow> nat"
  utcnow_isoformat :: string
  library_collectors :: "family list"
  static_response :: "string \<Rightarrow> response option"

text \<open>
  A handler's effect: it takes the state and returns the state it leaves, with either the
  exception it raised or its result. What a handler did before raising stays done.
\<close>

type_synonym 'a action = "state \<Rightarrow> state \<times> (py_error + 'a)"

definition ret :: "'a \<Rightarrow> 'a action" where
  "ret x st = (st, Inr x)"

definition and_then :: "'a action \<Rightarrow> ('a \<Rightarrow> 'b action) \<Rightarrow> 'b action" where
  "and_then m f st = (case m st of (st', Inl e) \<Rightarrow> (st', Inl e) | (st', Inr x) \<Rightarrow> f x st')"

definition lift :: "py_error + 'a \<Rightarrow> 'a action" where
  "lift r st = (st, r)"

definition time_time :: "real action" where
  "time_time st = (st, Inr (clock st))"

definition time_sleep :: "real \<Rightarrow> unit action" where
  "time_sleep secs st = (st\<lparr>clock := clock st + secs\<rparr>, Inr ())"

definition logger_log :: "level \<Rightarrow> fragment list \<Rightarrow> (string \<times> json) list \<Rightarrow> unit action" where
  "logger_log lv msg extra st =
     (st\<lparr>logger := logger st @ [\<lparr>e_level = lv, e_message = msg, e_extra = extra\<rparr>]\<rparr>, Inr ())"

definition order_counter_inc :: "labels \<Rightarrow> unit action" where
  "order_counter_inc l st =
     (case counter_inc l 1 (order_counter st) of
        Inl e \<Rightarrow> (st, Inl e)
      | Inr c \<Rightarrow> (st\<lparr>order_counter := c\<rparr>, Inr ()))"

definition order_value_observe :: "json \<Rightarrow> unit action" where
  "order_value_observe amount st =
     (case histogram_observe [] amount (order_value st) of
        (h, r) \<Rightarrow> (st\<lparr>order_value := h\<rparr>, r))"

definition database_query_duration_observe :: "labels \<Rightarrow> json \<Rightarrow> unit action" where
  "database_query_duration_observe l amount st =
     (case histogram_observe l amount (database_query_duration st) of
        (h, r) \<Rightarrow> (st\<lparr>database_query_duration := h\<rparr>, r))"

definition jsonify :: "(string \<times> json) list \<Rightarrow> nat \<Rightarrow> response" where
  "jsonify items code = \<lparr>status = code, payload = Json (JObj items)\<rparr>"

text \<open>
  \<^verbatim>\<open>generate_latest()\<close> over the process's registry: the families of the instruments that
  \<^verbatim>\<open>app.py\<close> creates and the families \<open>lib\<close> that the libraries' collectors report at that
  moment, sorted by name as the specification says.
\<close>

definition application_families :: "state \<Rightarrow> family list" where
  "application_families st =
     [flask_app_info,
      collect_counter (order_counter st),
      collect_histogram (order_value st),
      collect_gauge (active_users st),
      collect_histogram (database_query_duration st)]"

definition generate_latest :: "family list \<Rightarrow> state \<Rightarrow> family list" where
  "generate_latest lib st = sort_key f_name (application_families st @ lib)"

text \<open>
  Module import: the instruments are created, and the active-user count is seeded with
  \<^verbatim>\<open>random.randint(10, 50)\<close> (the raw draw \<open>r\<close>) and copied into the gauge. \<open>t0\<close> is the
  wall clock at that moment.
\<close>

definition init :: "nat \<Rightarrow> real \<Rightarrow> state" where
  "init r t0 =
     (let n = random_randint 10 50 r in
      \<lparr>order_counter = Counter ''orders_total'' [''status''],
       order_value = Histogram ''order_value_dollars'' [],
       active_users = gauge_set (real_of_int n) (Gauge ''active_users''),
       database_query_duration = Histogram ''database_query_duration_seconds'' [''query_type''],
       active_users_count = n,
       clock = t0,
       logger = []\<rparr>)"

section \<open>Handlers\<close>

text \<open>\<^verbatim>\<open>home\<close>: one info record, then the service name, the status and the timestamp.\<close>

definition home :: "env \<Rightarrow> request \<Rightarrow> response action" where
  "home env req =
     and_then (logger_log INFO [Text ''Home endpoint accessed'']
        [(''endpoint'', JStr ''/''),
         (''user_agent'', case r_user_agent req of None \<Rightarrow> JNull | Some ua \<Rightarrow> JStr ua)]) (\<lambda>_.
     ret (jsonify
        [(''service'', JStr ''Flask Observability Demo''),
         (''status'', JStr ''running''),
         (''timestamp'', JStr (utcnow_isoformat env))] 200))"

definition health :: "response action" where
  "health = ret (jsonify [(''status'', JStr ''healthy'')] 200)"

text \<open>\<^verbatim>\<open>metrics_endpoint\<close>: the snapshot of the registry, status 200.\<close>

definition metrics_endpoint :: "env \<Rightarrow> response action" where
  "metrics_endpoint env st =
     (st, Inr \<lparr>status = 200,
              payload = Exposition (generate_latest (library_collectors env) st)\<rparr>)"

text \<open>
  \<^verbatim>\<open>create_order\<close>. The draws, in the order the function makes them: the sleep's
  \<^verbatim>\<open>random.uniform(0.01, 0.1)\<close>, the \<^verbatim>\<open>random.random()\<close> compared with 0.1, and on the
  success branch the \<^verbatim>\<open>random.randint(1000, 9999)\<close> of the log record and the one of the
  response. The float literal \<^verbatim>\<open>0.1\<close> and the real number \<open>1/10\<close> lie between the same two
  neighbouring multiples of \<open>2\<^sup>-\<^sup>5\<^sup>3\<close>, so the comparison is the same for both.
\<close>

definition order_success :: "env \<Rightarrow> bool" where
  "order_success env = (random_random (draws env 1) > 1 / 10)"

definition create_order :: "env \<Rightarrow> request \<Rightarrow> response action" where
  "create_order env req =
     (let order_data = r_json req in
      and_then time_time (\<lambda>query_start.
      and_then (time_sleep (random_uniform (1 / 100) (1 / 10) (draws env 0))) (\<lambda>_.
      and_then time_time (\<lambda>t.
      and_then (database_query_duration_observe [(''query_type'', ''insert'')]
                  (JFloat (t - query_start))) (\<lambda>_.
      if order_success env then
        and_then (order_counter_inc [(''status'', ''success'')]) (\<lambda>_.
        and_then (lift (py_get order_data ''amount'' (JInt 0))) (\<lambda>amount.
        and_then (order_value_observe amount) (\<lambda>_.
        and_then (lift (py_get order_data ''amount'' (JInt 0))) (\<lambda>logged_amount.
        and_then (lift (py_get order_data ''customer'' (JStr ''unknown''))) (\<lambda>customer.
        and_then (logger_log INFO [Text ''Order created successfully'']
           [(''order_id'', JInt (random_randint 1000 9999 (draws env 2))),
            (''amount'', logged_amount),
            (''customer'', customer)]) (\<lambda>_.
        ret (jsonify
           [(''status'', JStr ''success''),
            (''order_id'', JInt (random_randint 1000 9999 (draws env 3)))] 201)))))))
      else
        and_then (order_counter_inc [(''status'', ''failed'')]) (\<lambda>_.
        and_then (lift (py_get order_data ''amount'' (JInt 0))) (\<lambda>logged_amount.
        and_then (logger_log ERROR [Text ''Order creation failed'']
           [(''reason'', JStr ''payment_declined''),
            (''amount'', logged_amount)]) (\<lambda>_.
        ret (jsonify
           [(''status'', JStr ''error''),
            (''message'', JStr ''Payment declined'')] 400)))))))))"

text \<open>\<^verbatim>\<open>get_user\<close>: the sleep's \<^verbatim>\<open>random.uniform(0.05, 0.3)\<close> is the only draw.\<close>

definition get_user :: "string \<Rightarrow> env \<Rightarrow> response action" where
  "get_user user_id env =
     and_then time_time (\<lambda>query_start.
     and_then (time_sleep (random_uniform (5 / 100) (3 / 10) (draws env 0))) (\<lambda>_.
     and_then time_time (\<lambda>t.
     and_then (database_query_duration_observe [(''query_type'', ''select'')]
                 (JFloat (t - query_start))) (\<lambda>_.
     and_then time_time (\<lambda>t'.
     and_then (logger_log INFO [Text ''User lookup'']
        [(''user_id'', JStr user_id),
         (''query_duration'', JFloat (t' - query_start))]) (\<lambda>_.
     ret (jsonify
        [(''user_id'', JStr user_id),
         (''username'', JStr (''user_'' @ user_id)),
         (''active'', JBool True)] 200)))))))"

definition slow_endpoint :: "env \<Rightarrow> response action" where
  "slow_endpoint env =
     (let duration = random_uniform 1 3 (draws env 0) in
      and_then (logger_log WARNING
         [Text ''Slow endpoint accessed - will take '', Fixed2 duration, Text ''s'']
         [(''endpoint'', JStr ''/api/slow''),
          (''expected_duration'', JFloat duration)]) (\<lambda>_.
      and_then (time_sleep duration) (\<lambda>_.
      ret (jsonify
         [(''message'', JStr ''This was intentionally slow''),
          (''duration'', JFloat duration)] 200))))"

text \<open>\<^verbatim>\<open>error_endpoint\<close>: the table of (status, message, reason) and the pick from it.\<close>

definition error_types :: "(nat \<times> string \<times> string) list" where
  "error_types =
     [(500, ''Internal Server Error'', ''database_connection_failed''),
      (503, ''Service Unavailable'', ''downstream_service_timeout''),
      (429, ''Too Many Requests'', ''rate_limit_exceeded'')]"

definition error_endpoint :: "env \<Rightarrow> response action" where
  "error_endpoint env =
     (case random_choice error_types (draws env 0) of
        (status_code, message, reason) \<Rightarrow>
          and_then (logger_log ERROR [Text ''Error endpoint triggered'']
             [(''status_code'', JInt (int status_code)),
              (''reason'', JStr reason)]) (\<lambda>_.
          ret (jsonify
             [(''error'', JStr message),
              (''reason'', JStr reason)] status_code)))"

text \<open>
  \<^verbatim>\<open>metrics_demo\<close>. Its draws: the \<^verbatim>\<open>random.randint(-5, 10)\<close> of the increment, the
  \<^verbatim>\<open>random.randint(1, 5)\<close> of the loop's range, and one \<^verbatim>\<open>random.uniform(10, 1000)\<close> per
  iteration. \<open>demo_loop env i n\<close> is the loop with \<open>n\<close> iterations left, the next draw
  being the \<open>i\<close>-th.
\<close>

definition demo_increment :: "env \<Rightarrow> int" where
  "demo_increment env = random_randint (- 5) 10 (draws env 0)"

definition demo_iterations :: "env \<Rightarrow> nat" where
  "demo_iterations env = nat (random_randint 1 5 (draws env 1))"

fun demo_loop :: "env \<Rightarrow> nat \<Rightarrow> nat \<Rightarrow> unit action" where
  "demo_loop env i 0 = ret ()"
| "demo_loop env i (Suc n) =
     and_then (order_counter_inc [(''status'', ''success'')]) (\<lambda>_.
     and_then (order_value_observe (JFloat (random_uniform 10 1000 (draws env i)))) (\<lambda>_.
     demo_loop env (Suc i) n))"

definition metrics_demo :: "env \<Rightarrow> response action" where
  "metrics_demo env =
     (let increment = demo_increment env in
      and_then (\<lambda>st. (st\<lparr>active_users := gauge_inc (real_of_int increment) (active_users st)\<rparr>,
                      Inr ())) (\<lambda>_.
      and_then (\<lambda>st. (st\<lparr>active_users_count := active_users_count st + increment\<rparr>,
                      Inr ())) (\<lambda>_.
      and_then (demo_loop env 2 (demo_iterations env)) (\<lambda>_.
      and_then (\<lambda>st. (st, Inr (active_users_count st))) (\<lambda>total.
      ret (jsonify
         [(''message'', JStr ''Metrics generated''),
          (''active_users'', JInt total)] 200))))))"

text \<open>The two error handlers. Neither can raise.\<close>

definition not_found :: "request \<Rightarrow> state \<Rightarrow> state \<times> response" where
  "not_found req st =
     (st\<lparr>logger := logger st @
         [\<lparr>e_level = WARNING, e_message = [Text ''404 Not Found''],
           e_extra = [(''path'', JStr (r_path req)), (''method'', JStr (r_method req))]\<rparr>]\<rparr>,
      jsonify [(''error'', JStr ''Not found'')] 404)"

text \<open>
  \<^verbatim>\<open>internal_error\<close> is given the framework's \<^verbatim>\<open>InternalServerError\<close> that wraps the
  exception a handler raised; \<^verbatim>\<open>str(error)\<close> is that wrapper's text.
\<close>

definition str_internal_server_error :: "py_error \<Rightarrow> string" where
  "str_internal_server_error original =
     ''500 Internal Server Error: The server encountered an internal error and was unable '' @
     ''to complete your request. Either the server is overloaded or there is an error in '' @
     ''the application.''"

definition internal_error :: "py_error \<Rightarrow> request \<Rightarrow> state \<Rightarrow> state \<times> response" where
  "internal_error error req st =
     (st\<lparr>logger := logger st @
         [\<lparr>e_level = ERROR, e_message = [Text ''500 Internal Server Error''],
           e_extra = [(''path'', JStr (r_path req)),
                      (''error'', JStr (str_internal_server_error error))]\<rparr>]\<rparr>,
      jsonify [(''error'', JStr ''Internal server error'')] 500)"

section \<open>Request Router\<close>

text \<open>
  The URL map holds the rules of the \<^verbatim>\<open>@app.route\<close> decorators of \<^verbatim>\<open>app.py\<close> and the rule
  \<^verbatim>\<open>/static/<path:filename>\<close> that \<^verbatim>\<open>Flask(__name__)\<close> adds. How a request is matched against
  them is the framework's dispatch, which is not part of the repository; it is written
  here as Flask and Werkzeug (from 2.2 on) do it. \<open>r_path\<close> is \<^verbatim>\<open>request.path\<close>, which begins
  with exactly one slash. A rule's path is matched as written: \<^verbatim>\<open><user_id>\<close> stands for a
  non-empty segment without a slash, \<^verbatim>\<open><path:filename>\<close> for a non-empty rest that does not
  begin with a slash. A rule accepts the methods its decorator names, \<^verbatim>\<open>GET\<close> when it names
  none; the framework adds \<^verbatim>\<open>HEAD\<close> to a rule that accepts \<^verbatim>\<open>GET\<close>, and \<^verbatim>\<open>OPTIONS\<close> to
  every rule.
\<close>

datatype endpoint =
    Static string
  | Home
  | Health
  | Metrics_endpoint
  | Create_order
  | Get_user string
  | Slow_endpoint
  | Error_endpoint
  | Metrics_demo

definition url_map :: "string \<Rightarrow> endpoint option" where
  "url_map path =
     (if take 8 path = ''/static/'' \<and> drop 8 path \<noteq> [] \<and> hd (drop 8 path) \<noteq> CHR ''/''
        then Some (Static (drop 8 path))
      else if path = ''/'' then Some Home
      else if path = ''/health'' then Some Health
      else if path = ''/metrics'' then Some Metrics_endpoint
      else if path = ''/api/orders'' then Some Create_order
      else if take 11 path = ''/api/users/'' \<and> drop 11 path \<noteq> [] \<and> CHR ''/'' \<notin> set (drop 11 path)
        then Some (Get_user (drop 11 path))
      else if path = ''/api/slow'' then Some Slow_endpoint
      else if path = ''/api/error'' then Some Error_endpoint
      else if path = ''/api/metrics-demo'' then Some Metrics_demo
      else None)"

fun methods_of :: "endpoint \<Rightarrow> string list" where
  "methods_of Create_order = [''POST'', ''OPTIONS'']"
| "methods_of _ = [''GET'', ''HEAD'', ''OPTIONS'']"

text \<open>
  The view of the static rule, \<^verbatim>\<open>send_static_file\<close>: the file's response, or \<^verbatim>\<open>NotFound\<close>
  when there is no such file.
\<close>

definition send_static_file :: "string \<Rightarrow> env \<Rightarrow> response action" where
  "send_static_file filename env st =
     (case static_response env filename of
        None \<Rightarrow> (st, Inl NotFound)
      | Some resp \<Rightarrow> (st, Inr resp))"

fun view :: "endpoint \<Rightarrow> env \<Rightarrow> request \<Rightarrow> response action" where
  "view (Static filename) env req = send_static_file filename env"
| "view Home env req = home env req"
| "view Health env req = health"
| "view Metrics_endpoint env req = metrics_endpoint env"
| "view Create_order env req = create_order env req"
| "view (Get_user user_id) env req = get_user user_id env"
| "view Slow_endpoint env req = slow_endpoint env"
| "view Error_endpoint env req = error_endpoint env"
| "view Metrics_demo env req = metrics_demo env"

text \<open>
  When no rule takes the path with the method, the matcher tries once more with doubled
  slashes merged: \<^verbatim>\<open>re.sub("/{2,}?", "/", path)\<close>, which replaces each pair of slashes,
  from the left, by one.
\<close>

fun merge_slashes :: "string \<Rightarrow> string" where
  "merge_slashes [] = []"
| "merge_slashes [c] = [c]"
| "merge_slashes (c # d # rest) =
     (if c = CHR ''/'' \<and> d = CHR ''/'' then CHR ''/'' # merge_slashes rest
      else c # merge_slashes (d # rest))"

text \<open>
  What the matcher decides for a request: a rule that takes the path and accepts the
  method; failing that, a redirect when a rule takes the merged path and accepts the
  method; failing that, ``method not allowed'' when a rule took the path or the merged path
  but not the method; and ``not found'' when no rule took either.
\<close>

datatype routing = Matched endpoint | Redirected | Method_not_allowed | No_rule

definition match_request :: "request \<Rightarrow> routing" where
  "match_request req =
     (case url_map (r_path req) of
        Some ep \<Rightarrow>
          if r_method req \<in> set (methods_of ep) then Matched ep
          else (case url_map (merge_slashes (r_path req)) of
                  Some ep' \<Rightarrow>
                    if r_method req \<in> set (methods_of ep') then Redirected
                    else Method_not_allowed
                | None \<Rightarrow> Method_not_allowed)
      | None \<Rightarrow>
          (case url_map (merge_slashes (r_path req)) of
             Some ep' \<Rightarrow>
               if r_method req \<in> set (methods_of ep') then Redirected
               else Method_not_allowed
           | None \<Rightarrow> No_rule))"

text \<open>
  The handler that runs for a request, if one does: the rule its path matches, when the
  rule accepts its method and the method is not \<^verbatim>\<open>OPTIONS\<close> (which the framework answers
  itself).
\<close>

definition invoked :: "request \<Rightarrow> endpoint option" where
  "invoked req =
     (case url_map (r_path req) of
        None \<Rightarrow> None
      | Some ep \<Rightarrow>
          if r_method req \<in> set (methods_of ep) \<and> r_method req \<noteq> ''OPTIONS''
          then Some ep else None)"

text \<open>
  One request through the application. A matched rule runs its view, unless the method
  is \<^verbatim>\<open>OPTIONS\<close>; \<^verbatim>\<open>NotFound\<close> out of a view goes to the 404 handler and any other exception
  to the 500 handler, on the state the view left. A redirect (308) and ``method not
  allowed'' (405) are answered by the framework itself. ``Not found'' goes to the 404
  handler.
\<close>

definition handle_request :: "env \<Rightarrow> request \<Rightarrow> state \<Rightarrow> state \<times> response" where
  "handle_request env req st =
     (case match_request req of
        Matched ep \<Rightarrow>
          if r_method req = ''OPTIONS''
          then (st, \<lparr>status = 200, payload = Framework_body\<rparr>)
          else (case view ep env req st of
                  (st', Inr resp) \<Rightarrow> (st', resp)
                | (st', Inl error) \<Rightarrow>
                    if error = NotFound then not_found req st'
                    else internal_error error req st')
      | Redirected \<Rightarrow> (st, \<lparr>status = 308, payload = Framework_body\<rparr>)
      | Method_not_allowed \<Rightarrow> (st, \<lparr>status = 405, payload = Framework_body\<rparr>)
      | No_rule \<Rightarrow> not_found req st)"

text \<open>A sequence of requests, each with what its invocation reads from outside.\<close>

fun run :: "(env \<times> request) list \<Rightarrow> state \<Rightarrow> state" where
  "run [] st = st"
| "run ((env, req) # rest) st = run rest (fst (handle_request env req st))"

section \<open>Notions the properties are stated with\<close>

text \<open>A request matches a route when a rule has its path and accepts its method.\<close>

definition route_matches :: "request \<Rightarrow> bool" where
  "route_matches req =
     (case url_map (r_path req) of
        None \<Rightarrow> False
      | Some ep \<Rightarrow> r_method req \<in> set (methods_of ep))"

text \<open>The label combination of \<^verbatim>\<open>orders_total\<close> that one run of \<^verbatim>\<open>create_order\<close> increments.\<close>

definition order_label :: "env \<Rightarrow> labels" where
  "order_label env = [(''status'', if order_success env then ''success'' else ''failed'')]"

text \<open>
  What an invocation adds to \<^verbatim>\<open>orders_total{status="success"}\<close>: an order that takes the
  success branch, and the iterations of the loop of \<^verbatim>\<open>metrics_demo\<close>.
\<close>

definition took_success_branch :: "env \<times> request \<Rightarrow> bool" where
  "took_success_branch call =
     (invoked (snd call) = Some Create_order \<and> order_success (fst call))"

definition loop_iterations :: "env \<times> request \<Rightarrow> nat" where
  "loop_iterations call =
     (if invoked (snd call) = Some Metrics_demo then demo_iterations (fst call) else 0)"


text \<open>
  The registry refuses a collector whose sample names are taken, and the libraries'
  collectors are registered before the instruments of \<^verbatim>\<open>app.py\<close>. So in a process that
  started, no family of the libraries has a line under a sample name of the application.
\<close>

definition registered_apart :: "family list \<Rightarrow> bool" where
  "registered_apart lib =
     (\<forall>f \<in> set lib. \<forall>s \<in> set (f_samples f).
        sample_name s \<notin> set [''flask_app_info'', ''orders_total'', ''order_value_dollars_count'',
          ''order_value_dollars_sum'', ''active_users'',
          ''database_query_duration_seconds_count'', ''database_query_duration_seconds_sum''])"

text \<open>The histogram of the registry that is registered under a name.\<close>

definition histogram_named :: "state \<Rightarrow> string \<Rightarrow> histogram option" where
  "histogram_named st n =
     find (\<lambda>h. h_name h = n) [order_value st, database_query_duration st]"

text \<open>\<open>bump l n c\<close> is the counter \<open>c\<close> after \<open>n\<close> calls of \<^verbatim>\<open>c.labels(**l).inc()\<close>.\<close>

primrec bump :: "labels \<Rightarrow> nat \<Rightarrow> counter \<Rightarrow> counter" where
  "bump l 0 c = c"
| "bump l (Suc n) c =
     bump l n (c\<lparr>c_children := put l (counter_value c l + 1) (c_children c)\<rparr>)"

text \<open>The names under which the four instruments are registered.\<close>

definition instrument_names :: "state \<Rightarrow> string list" where
  "instrument_names st =
     [c_name (order_counter st), h_name (order_value st), g_name (active_users st),
      h_name (database_query_duration st)]"

section \<open>Basic facts\<close>

lemmas action_defs = ret_def and_then_def lift_def time_time_def time_sleep_def logger_log_def
  order_counter_inc_def order_value_observe_def database_query_duration_observe_def
  counter_inc_def histogram_observe_def jsonify_def

lemma match_request_matched:
  assumes "url_map (r_path req) = Some ep" and "r_method req \<in> set (methods_of ep)"
  shows "match_request req = Matched ep"
  using assms by (simp add: match_request_def)

lemma map_of_put: "map_of (put l v kvs) = (map_of kvs)(l \<mapsto> v)"
  by (induction kvs) (auto simp: fun_eq_iff)

lemma randint_range: "a \<le> b \<Longrightarrow> a \<le> random_randint a b r \<and> random_randint a b r \<le> b"
  unfolding random_randint_def
proof -
  assume ab: "a \<le> b"
  have "r mod nat (b - a + 1) < nat (b - a + 1)"
    using ab by (intro mod_less_divisor) simp
  then show "a \<le> a + int (r mod nat (b - a + 1)) \<and> a + int (r mod nat (b - a + 1)) \<le> b"
    using ab by linarith
qed

text \<open>Among the raw draws below \<open>n * k\<close>, each residue modulo \<open>n\<close> occurs \<open>k\<close> times.\<close>

lemma card_residue: "i < n \<Longrightarrow> card {r. r < n * k \<and> r mod n = i} = k"
proof (induction k)
  case 0
  then show ?case by simp
next
  case (Suc k)
  let ?old = "{r. r < n * k \<and> r mod n = i}"
  have "{r. r < n * Suc k \<and> r mod n = i} = ?old \<union> {n * k + i}"
  proof (rule set_eqI)
    fix r
    show "r \<in> {r. r < n * Suc k \<and> r mod n = i} \<longleftrightarrow> r \<in> ?old \<union> {n * k + i}"
    proof (cases "r < n * k")
      case True
      then show ?thesis using Suc.prems by auto
    next
      case False
      show ?thesis
      proof
        assume "r \<in> {r. r < n * Suc k \<and> r mod n = i}"
        then have a: "r < n * k + n" "r mod n = i" by auto
        from False obtain j where j: "r = n * k + j" by (metis le_iff_add not_le)
        with a have "j < n" by simp
        with a j have "j = i" by simp
        with j show "r \<in> ?old \<union> {n * k + i}" by simp
      next
        assume "r \<in> ?old \<union> {n * k + i}"
        with False have "r = n * k + i" by auto
        then show "r \<in> {r. r < n * Suc k \<and> r mod n = i}" using Suc.prems by simp
      qed
    qed
  qed
  moreover have "n * k + i \<notin> ?old" by simp
  moreover have "finite ?old" by simp
  ultimately show ?case using Suc by simp
qed

section \<open>The error endpoint\<close>

lemma choice_error_types: "random_choice error_types r \<in> set error_types"
  unfolding random_choice_def by (rule nth_mem) (simp add: error_types_def)

lemma choice_error_types_uniform:
  assumes "i < 3"
  shows "card {r. r < 3 * k \<and> random_choice error_types r = error_types ! i} = k"
proof -
  have d: "distinct error_types" and l: "length error_types = 3"
    by (simp_all add: error_types_def)
  have "\<And>r. (random_choice error_types r = error_types ! i) = (r mod 3 = i)"
    unfolding random_choice_def using d l assms by (simp add: nth_eq_iff_index_eq)
  then show ?thesis using card_residue[of i 3 k] assms by simp
qed

lemma error_endpoint_result:
  "error_endpoint env st =
     (case random_choice error_types (draws env 0) of (c, m, r) \<Rightarrow>
        (st\<lparr>logger := logger st @
            [\<lparr>e_level = ERROR, e_message = [Text ''Error endpoint triggered''],
              e_extra = [(''status_code'', JInt (int c)), (''reason'', JStr r)]\<rparr>]\<rparr>,
         Inr \<lparr>status = c, payload = Json (JObj [(''error'', JStr m), (''reason'', JStr r)])\<rparr>))"
  by (simp add: error_endpoint_def action_defs split: prod.splits)

lemma url_map_error: "url_map ''/api/error'' = Some Error_endpoint"
  by (simp add: url_map_def)

text \<open>
  C5. A \<^verbatim>\<open>GET\<close> of \<^verbatim>\<open>/api/error\<close> answers with one of the three fixed triples: the status
  is 500, 503 or 429 and the body's \<^verbatim>\<open>error\<close> and \<^verbatim>\<open>reason\<close> are the ones the table gives for
  that status. The triple is the Simulation Engine's pick from the table, and the pick is
  uniform: of the raw draws below \<open>3 * k\<close>, exactly \<open>k\<close> pick each triple.
\<close>

theorem error_endpoint_triples:
  assumes "r_method req = ''GET''" and "r_path req = ''/api/error''"
  shows "(\<exists>c m r. (c, m, r) \<in> {(500, ''Internal Server Error'', ''database_connection_failed''),
                               (503, ''Service Unavailable'', ''downstream_service_timeout''),
                               (429, ''Too Many Requests'', ''rate_limit_exceeded'')}
            \<and> (c, m, r) = random_choice error_types (draws env 0)
            \<and> snd (handle_request env req st) =
                 \<lparr>status = c, payload = Json (JObj [(''error'', JStr m), (''reason'', JStr r)])\<rparr>)
         \<and> (\<forall>i < 3. \<forall>k. card {r. r < 3 * k \<and> random_choice error_types r = error_types ! i} = k)"
proof -
  obtain c m r where t: "random_choice error_types (draws env 0) = (c, m, r)"
    by (cases "random_choice error_types (draws env 0)")
  have "(c, m, r) \<in> set error_types"
    using choice_error_types[of "draws env 0"] t by simp
  then have mem: "(c, m, r) \<in> {(500, ''Internal Server Error'', ''database_connection_failed''),
                               (503, ''Service Unavailable'', ''downstream_service_timeout''),
                               (429, ''Too Many Requests'', ''rate_limit_exceeded'')}"
    by (simp add: error_types_def)
  have "snd (handle_request env req st) =
          \<lparr>status = c, payload = Json (JObj [(''error'', JStr m), (''reason'', JStr r)])\<rparr>"
    using assms t by (simp add: handle_request_def match_request_def url_map_error error_endpoint_result)
  with mem t show ?thesis using choice_error_types_uniform by auto
qed

theorem error_endpoint_triples_witness:
  "snd (handle_request \<lparr>draws = (\<lambda>i. 4), utcnow_isoformat = ''2025-01-01T00:00:00'',
       library_collectors = [], static_response = (\<lambda>f. None)\<rparr>
          \<lparr>r_method = ''GET'', r_path = ''/api/error'', r_user_agent = None, r_json = JNull\<rparr>
          (init 0 0)) =
     \<lparr>status = 503,
      payload = Json (JObj [(''error'', JStr ''Service Unavailable''),
                            (''reason'', JStr ''downstream_service_timeout'')])\<rparr>
   \<and> card {r. r < 3 * 7 \<and> random_choice error_types r = error_types ! 2} = (7::nat)"
proof -
  let ?req = "\<lparr>r_method = ''GET'', r_path = ''/api/error'', r_user_agent = None, r_json = JNull\<rparr>"
  let ?env = "\<lparr>draws = (\<lambda>i. 4), utcnow_isoformat = ''2025-01-01T00:00:00'',
       library_collectors = [], static_response = (\<lambda>f. None)\<rparr>"
  have m: "r_method ?req = ''GET''" and p: "r_path ?req = ''/api/error''"
    by simp_all
  note h = error_endpoint_triples[OF m p, of ?env "init 0 0"]
  have pick: "random_choice error_types (draws ?env 0) =
                (503, ''Service Unavailable'', ''downstream_service_timeout'')"
    by (simp add: random_choice_def error_types_def)
  from h pick have "snd (handle_request ?env ?req (init 0 0)) =
     \<lparr>status = 503,
      payload = Json (JObj [(''error'', JStr ''Service Unavailable''),
                            (''reason'', JStr ''downstream_service_timeout'')])\<rparr>"
    by auto
  moreover have "card {r. r < 3 * 7 \<and> random_choice error_types r = error_types ! 2} = (7::nat)"
    using h[THEN conjunct2, rule_format, of 2 7] by simp
  ultimately show ?thesis by simp
qed

section \<open>Effects of the handlers on the process state\<close>

lemma counter_value_put:
  "counter_value (c\<lparr>c_children := put l v (c_children c)\<rparr>) l' =
     (if l' = l then v else counter_value c l')"
  by (simp add: counter_value_def map_of_put)

lemma histogram_samples_put:
  "histogram_samples (h\<lparr>h_children := put l v (h_children h)\<rparr>) l' =
     (if l' = l then v else histogram_samples h l')"
  by (simp add: histogram_samples_def map_of_put)

lemma counter_value_bump:
  "counter_value (bump l n c) l' = counter_value c l' + (if l' = l then real n else 0)"
  by (induction n arbitrary: c) (simp_all add: counter_value_put)

lemma map_of_bump:
  "map_of (c_children (bump l n c)) l' =
     (if l' = l \<and> 0 < n then Some (counter_value c l + real n) else map_of (c_children c) l')"
proof (induction n arbitrary: c)
  case 0
  then show ?case by simp
next
  case (Suc n)
  show ?case
    by (simp add: Suc.IH counter_value_put map_of_put)
qed

lemma demo_loop_ok: "snd (demo_loop env i n st) = Inr ()"
  by (induction n arbitrary: i st) (simp_all add: action_defs)


lemma demo_loop_names:
  "instrument_names (fst (demo_loop env i n st)) = instrument_names st"
  by (induction n arbitrary: i st) (simp_all add: action_defs instrument_names_def)


lemma demo_loop_order_counter:
  "order_counter (fst (demo_loop env i n st)) = bump [(''status'', ''success'')] n (order_counter st)"
  by (induction n arbitrary: i st) (simp_all add: action_defs)

lemma metrics_demo_unfold:
  "metrics_demo env st =
     (let st' = fst (demo_loop env 2 (demo_iterations env)
                  (st\<lparr>active_users := gauge_inc (real_of_int (demo_increment env)) (active_users st),
                      active_users_count := active_users_count st + demo_increment env\<rparr>))
      in (st', Inr (jsonify [(''message'', JStr ''Metrics generated''),
                             (''active_users'', JInt (active_users_count st'))] 200)))"
proof -
  let ?st2 = "st\<lparr>active_users := gauge_inc (real_of_int (demo_increment env)) (active_users st),
                 active_users_count := active_users_count st + demo_increment env\<rparr>"
  obtain st3 res where d: "demo_loop env 2 (demo_iterations env) ?st2 = (st3, res)"
    by (cases "demo_loop env 2 (demo_iterations env) ?st2")
  with demo_loop_ok[of env 2 "demo_iterations env" ?st2] have "res = Inr ()"
    by simp
  with d show ?thesis
    by (simp add: metrics_demo_def Let_def and_then_def ret_def)
qed



lemma metrics_demo_order_counter:
  "order_counter (fst (metrics_demo env st)) =
     bump [(''status'', ''success'')] (demo_iterations env) (order_counter st)"
  by (simp add: metrics_demo_unfold Let_def demo_loop_order_counter)

lemma metrics_demo_names:
  "instrument_names (fst (metrics_demo env st)) = instrument_names st"
  by (simp add: metrics_demo_unfold Let_def demo_loop_names)
     (simp add: instrument_names_def gauge_inc_def)

lemma create_order_order_counter:
  "order_counter (fst (create_order env req st)) = bump (order_label env) 1 (order_counter st)"
  by (cases "r_json req")
     (simp_all add: create_order_def action_defs Let_def order_label_def split: sum.splits option.splits)


lemma create_order_names:
  "instrument_names (fst (create_order env req st)) = instrument_names st"
  by (cases "r_json req")
     (simp_all add: create_order_def action_defs Let_def instrument_names_def
        split: sum.splits option.splits)

lemma view_order_counter:
  "order_counter (fst (view ep env req st)) =
     bump (case ep of Create_order \<Rightarrow> order_label env | _ \<Rightarrow> [(''status'', ''success'')])
          (case ep of Create_order \<Rightarrow> 1 | Metrics_demo \<Rightarrow> demo_iterations env | _ \<Rightarrow> 0)
          (order_counter st)"
  by (cases ep)
     (simp_all add: create_order_order_counter metrics_demo_order_counter home_def health_def
        metrics_endpoint_def get_user_def slow_endpoint_def error_endpoint_result
        send_static_file_def action_defs Let_def split: prod.splits option.splits)

lemma view_names:
  "instrument_names (fst (view ep env req st)) = instrument_names st"
  by (cases ep)
     (simp_all add: create_order_names metrics_demo_names,
      simp_all add: home_def health_def metrics_endpoint_def get_user_def slow_endpoint_def
        error_endpoint_result send_static_file_def action_defs Let_def instrument_names_def
        split: prod.splits option.splits)


lemma handle_request_fst:
  assumes "\<And>e s. P (fst (internal_error e req s)) = P s"
    and "\<And>s. P (fst (not_found req s)) = P s"
  shows "P (fst (handle_request env req st)) =
     (case invoked req of None \<Rightarrow> P st | Some ep \<Rightarrow> P (fst (view ep env req st)))"
proof (cases "url_map (r_path req)")
  case None
  then show ?thesis
    using assms(2) by (simp add: handle_request_def match_request_def invoked_def split: option.splits)
next
  case (Some ep)
  show ?thesis
  proof (cases "r_method req \<in> set (methods_of ep)")
    case False
    then show ?thesis
      using Some by (simp add: handle_request_def match_request_def invoked_def split: option.splits)
  next
    case True
    obtain st' res where v: "view ep env req st = (st', res)"
      by (cases "view ep env req st")
    show ?thesis
      using Some True v assms
      by (cases res) (simp_all add: handle_request_def match_request_matched invoked_def)
  qed
qed

lemma handle_request_order_counter:
  "order_counter (fst (handle_request env req st)) =
     (case invoked req of
        None \<Rightarrow> order_counter st
      | Some ep \<Rightarrow>
          bump (case ep of Create_order \<Rightarrow> order_label env | _ \<Rightarrow> [(''status'', ''success'')])
            (case ep of Create_order \<Rightarrow> 1 | Metrics_demo \<Rightarrow> demo_iterations env | _ \<Rightarrow> 0)
            (order_counter st))"
  by (subst handle_request_fst[where P = order_counter])
     (simp_all add: internal_error_def not_found_def view_order_counter split: option.splits)

lemma handle_request_names:
  "instrument_names (fst (handle_request env req st)) = instrument_names st"
proof -
  have "\<And>e s. instrument_names (fst (internal_error e req s)) = instrument_names s"
    by (simp add: internal_error_def instrument_names_def)
  moreover have "\<And>s. instrument_names (fst (not_found req s)) = instrument_names s"
    by (simp add: not_found_def instrument_names_def)
  ultimately show ?thesis
    by (subst handle_request_fst[where P = instrument_names])
       (simp_all add: view_names split: option.splits)
qed

lemma run_names: "instrument_names (run calls st) = instrument_names st"
  by (induction calls arbitrary: st) (auto simp: handle_request_names)

lemma init_names:
  "instrument_names (init r t0) =
     [''orders_total'', ''order_value_dollars'', ''active_users'', ''database_query_duration_seconds'']"
  by (simp add: init_def instrument_names_def Let_def Counter_def Histogram_def Gauge_def gauge_set_def)

section \<open>Orders\<close>

lemma url_map_orders: "url_map ''/api/orders'' = Some Create_order"
  by (simp add: url_map_def)

lemma success_count:
  "{k. k < 2 ^ 53 \<and> 1 / 10 < random_random k} = {900719925474100 ..< 2 ^ 53}"
proof (rule set_eqI)
  fix k :: nat
  show "k \<in> {k. k < 2 ^ 53 \<and> 1 / 10 < random_random k} \<longleftrightarrow> k \<in> {900719925474100 ..< 2 ^ 53}"
  proof (cases "k < 2 ^ 53")
    case True
    then have e: "random_random k = real k / 2 ^ 53" by (simp add: random_random_def)
    have t: "(1 / 10 < real k / 2 ^ 53) = (900719925474100 \<le> k)"
    proof -
      have "(1 / 10 < real k / 2 ^ 53) = ((2::real) ^ 53 < 10 * real k)"
        by (simp add: field_simps)
      also have "\<dots> = ((2::nat) ^ 53 < 10 * k)"
        by (metis of_nat_less_iff of_nat_mult of_nat_numeral of_nat_power)
      also have "\<dots> = (900719925474100 \<le> k)" by simp arith
      finally show ?thesis .
    qed
    have "(1 / 10 < random_random k) = (900719925474100 \<le> k)"
      unfolding e by (rule t)
    with True show ?thesis
      by (simp only: mem_Collect_eq atLeastLessThan_iff) blast
  next
    case False
    then show ?thesis by simp
  qed
qed

lemma success_card: "card {k. k < 2 ^ 53 \<and> 1 / 10 < random_random k} = 8106479329266892"
  unfolding success_count by simp

lemma create_order_alice:
  assumes "r_json req = JObj [(''amount'', JInt 100), (''customer'', JStr ''alice'')]"
  shows "snd (create_order env req st) =
     (if order_success env
      then Inr (jsonify [(''status'', JStr ''success''),
                    (''order_id'', JInt (random_randint 1000 9999 (draws env 3)))] 201)
      else Inr (jsonify [(''status'', JStr ''error''), (''message'', JStr ''Payment declined'')] 400))"
  using assms by (simp add: create_order_def action_defs Let_def)

text \<open>
  C2. A \<^verbatim>\<open>POST\<close> to \<^verbatim>\<open>/api/orders\<close> with the body \<^verbatim>\<open>{"amount":100,"customer":"alice"}\<close>
  is answered 201 or 400. It is 201 exactly when the Simulation Engine's uniform draw
  exceeds 0.1, with the body \<^verbatim>\<open>{"status":"success","order_id":n}\<close> for an integer \<open>n\<close>
  in \<open>[1000, 9999]\<close>; otherwise it is 400 with the body
  \<^verbatim>\<open>{"status":"error","message":"Payment declined"}\<close>. Of the \<open>2\<^sup>5\<^sup>3\<close> equally likely values
  of the draw, 8106479329266892 exceed 0.1: a share of 0.9, up to the grain of the draw.
\<close>

theorem create_order_alice_response:
  assumes "r_method req = ''POST''" and "r_path req = ''/api/orders''"
    and "r_json req = JObj [(''amount'', JInt 100), (''customer'', JStr ''alice'')]"
  shows "(if random_random (draws env 1) > 1 / 10
          then \<exists>n. 1000 \<le> n \<and> n \<le> 9999 \<and>
                 snd (handle_request env req st) =
                   \<lparr>status = 201,
                    payload = Json (JObj [(''status'', JStr ''success''), (''order_id'', JInt n)])\<rparr>
          else snd (handle_request env req st) =
                 \<lparr>status = 400,
                  payload = Json (JObj [(''status'', JStr ''error''),
                                        (''message'', JStr ''Payment declined'')])\<rparr>)
         \<and> order_success env = (random_random (draws env 1) > 1 / 10)
         \<and> card {k. k < 2 ^ 53 \<and> 1 / 10 < random_random k} = 8106479329266892
         \<and> \<bar>real (card {k. k < 2 ^ 53 \<and> 1 / 10 < random_random k}) / 2 ^ 53 - 9 / 10\<bar> < 1 / 10 ^ 16"
proof -
  have r: "snd (handle_request env req st) =
     (if order_success env
      then jsonify [(''status'', JStr ''success''),
                    (''order_id'', JInt (random_randint 1000 9999 (draws env 3)))] 201
      else jsonify [(''status'', JStr ''error''), (''message'', JStr ''Payment declined'')] 400)"
    using assms(1,2) create_order_alice[OF assms(3), of env st]
    by (cases "create_order env req st") (simp add: handle_request_def match_request_def url_map_orders)
  have "1000 \<le> random_randint 1000 9999 (draws env 3) \<and> random_randint 1000 9999 (draws env 3) \<le> 9999"
    by (rule randint_range) simp
  with r have "(if random_random (draws env 1) > 1 / 10
          then \<exists>n. 1000 \<le> n \<and> n \<le> 9999 \<and>
                 snd (handle_request env req st) =
                   \<lparr>status = 201,
                    payload = Json (JObj [(''status'', JStr ''success''), (''order_id'', JInt n)])\<rparr>
          else snd (handle_request env req st) =
                 \<lparr>status = 400,
                  payload = Json (JObj [(''status'', JStr ''error''),
                                        (''message'', JStr ''Payment declined'')])\<rparr>)"
    by (auto simp: order_success_def jsonify_def)
  moreover have "\<bar>real (card {k. k < 2 ^ 53 \<and> 1 / 10 < random_random k}) / 2 ^ 53 - 9 / 10\<bar> < 1 / 10 ^ 16"
    unfolding success_card by simp
  ultimately show ?thesis using success_card by (simp add: order_success_def)
qed

theorem create_order_alice_response_witness:
  "\<exists>n. 1000 \<le> n \<and> n \<le> 9999 \<and>
     snd (handle_request \<lparr>draws = (\<lambda>i. 2 ^ 52), utcnow_isoformat = ''2025-01-01T00:00:00'',
       library_collectors = [], static_response = (\<lambda>f. None)\<rparr>
            \<lparr>r_method = ''POST'', r_path = ''/api/orders'', r_user_agent = None,
              r_json = JObj [(''amount'', JInt 100), (''customer'', JStr ''alice'')]\<rparr>
            (init 0 0)) =
       \<lparr>status = 201,
        payload = Json (JObj [(''status'', JStr ''success''), (''order_id'', JInt n)])\<rparr>"
proof -
  let ?req = "\<lparr>r_method = ''POST'', r_path = ''/api/orders'', r_user_agent = None,
                r_json = JObj [(''amount'', JInt 100), (''customer'', JStr ''alice'')]\<rparr>"
  let ?env = "\<lparr>draws = (\<lambda>i. 2 ^ 52), utcnow_isoformat = ''2025-01-01T00:00:00'',
       library_collectors = [], static_response = (\<lambda>f. None)\<rparr>"
  have m: "r_method ?req = ''POST''" and p: "r_path ?req = ''/api/orders''"
    and j: "r_json ?req = JObj [(''amount'', JInt 100), (''customer'', JStr ''alice'')]"
    by simp_all
  have d: "random_random (draws ?env 1) > 1 / 10"
    by (simp add: random_random_def)
  from create_order_alice_response[OF m p j, of ?env "init 0 0"] d show ?thesis
    by (simp only: if_True)
qed

lemma create_order_response:
  "snd (create_order env req st) =
     (case py_get (r_json req) ''amount'' (JInt 0) of
        Inl e \<Rightarrow> Inl e
      | Inr amount \<Rightarrow>
          if order_success env then
            (case py_number amount of
               Inl error \<Rightarrow> Inl error
             | Inr x \<Rightarrow> Inr (jsonify [(''status'', JStr ''success''),
                    (''order_id'', JInt (random_randint 1000 9999 (draws env 3)))] 201))
          else Inr (jsonify [(''status'', JStr ''error''), (''message'', JStr ''Payment declined'')] 400))"
  by (cases "r_json req")
     (simp_all add: create_order_def action_defs Let_def split: sum.splits option.splits)

lemma create_order_logger_success:
  assumes "snd (create_order env req st) = Inr resp" and "order_success env"
  shows "\<exists>amount customer. logger (fst (create_order env req st)) = logger st @
      [\<lparr>e_level = INFO, e_message = [Text ''Order created successfully''],
        e_extra = [(''order_id'', JInt (random_randint 1000 9999 (draws env 2))),
                   (''amount'', amount), (''customer'', customer)]\<rparr>]"
  using assms
  by (cases "r_json req")
     (simp_all add: create_order_def action_defs Let_def split: sum.splits option.splits)

lemma create_order_order_value:
  "order_value (fst (create_order env req st)) =
     (case py_get (r_json req) ''amount'' (JInt 0) of
        Inl e \<Rightarrow> order_value st
      | Inr amount \<Rightarrow>
          if order_success env then
            (order_value st)\<lparr>h_children := put []
               (histogram_samples (order_value st) [] @ (case py_number amount of Inl error \<Rightarrow> [] | Inr x \<Rightarrow> [x]))
               (h_children (order_value st))\<rparr>
          else order_value st)"
  by (cases "r_json req")
     (simp_all add: create_order_def action_defs Let_def split: sum.splits option.splits)

lemma py_number_not_NotFound: "py_number amount \<noteq> Inl NotFound"
  by (cases amount) simp_all

lemma py_get_not_NotFound: "py_get order_data k d \<noteq> Inl NotFound"
  by (cases order_data) simp_all

lemma create_order_not_NotFound: "snd (create_order env req st) \<noteq> Inl NotFound"
  unfolding create_order_response
  using py_number_not_NotFound py_get_not_NotFound
  by (auto split: sum.splits)

lemma handle_request_orders:
  assumes "r_method req = ''POST''" and "r_path req = ''/api/orders''"
  shows "handle_request env req st =
     (case create_order env req st of
        (st', Inr resp) \<Rightarrow> (st', resp)
      | (st', Inl error) \<Rightarrow> internal_error error req st')"
proof -
  obtain st' res where c: "create_order env req st = (st', res)"
    by (cases "create_order env req st")
  with create_order_not_NotFound[of env req st] have "res \<noteq> Inl NotFound"
    by simp
  with c assms show ?thesis
    by (cases res) (simp_all add: handle_request_def match_request_def url_map_orders)
qed

lemma orders_201:
  assumes "r_method req = ''POST''" and "r_path req = ''/api/orders''"
  shows "(status (snd (handle_request env req st)) = 201) =
     (order_success env \<and> (\<exists>amount x. py_get (r_json req) ''amount'' (JInt 0) = Inr amount \<and> py_number amount = Inr x))"
proof -
  obtain st' res where c: "create_order env req st = (st', res)"
    by (cases "create_order env req st")
  have "snd (create_order env req st) = res" using c by simp
  then show ?thesis using c
    unfolding handle_request_orders[OF assms] create_order_response
    by (auto simp: internal_error_def jsonify_def split: sum.splits option.splits if_splits)
qed

lemma randint_onto:
  assumes "a \<le> v" and "v \<le> b"
  shows "random_randint a b (nat (v - a)) = v"
  using assms by (simp add: random_randint_def)

text \<open>
  C10. A \<^verbatim>\<open>POST\<close> to \<^verbatim>\<open>/api/orders\<close> that succeeds (status 201) draws two identifiers
  with \<^verbatim>\<open>random.randint(1000, 9999)\<close>: the first goes into the success log record, the
  second into the response as \<^verbatim>\<open>order_id\<close>. Both lie in \<open>[1000, 9999]\<close>. They are separate
  draws: every pair of identifiers in the range is logged and returned for some randomness,
  so for some randomness the two differ.
\<close>

theorem order_ids_drawn_separately:
  assumes "r_method req = ''POST''" and "r_path req = ''/api/orders''"
    and "status (snd (handle_request env req st)) = 201"
  shows "(\<exists>logged returned amount customer.
            logged = random_randint 1000 9999 (draws env 2) \<and>
            returned = random_randint 1000 9999 (draws env 3) \<and>
            1000 \<le> logged \<and> logged \<le> 9999 \<and> 1000 \<le> returned \<and> returned \<le> 9999 \<and>
            logger (fst (handle_request env req st)) = logger st @
              [\<lparr>e_level = INFO, e_message = [Text ''Order created successfully''],
                e_extra = [(''order_id'', JInt logged), (''amount'', amount),
                           (''customer'', customer)]\<rparr>] \<and>
            payload (snd (handle_request env req st)) =
              Json (JObj [(''status'', JStr ''success''), (''order_id'', JInt returned)]))
       \<and> (\<forall>a b. 1000 \<le> a \<and> a \<le> 9999 \<and> 1000 \<le> b \<and> b \<le> 9999 \<longrightarrow>
            (\<exists>env'. status (snd (handle_request env' req st)) = 201 \<and>
               random_randint 1000 9999 (draws env' 2) = a \<and>
               random_randint 1000 9999 (draws env' 3) = b))
       \<and> (\<exists>env'. status (snd (handle_request env' req st)) = 201 \<and>
               random_randint 1000 9999 (draws env' 2) \<noteq> random_randint 1000 9999 (draws env' 3))"
proof -
  from assms(3) have ok: "order_success env"
    and body: "\<exists>amount x. py_get (r_json req) ''amount'' (JInt 0) = Inr amount \<and> py_number amount = Inr x"
    unfolding orders_201[OF assms(1,2)] by simp_all
  obtain st' res where c: "create_order env req st = (st', res)"
    by (cases "create_order env req st")
  from ok body have res: "snd (create_order env req st) =
      Inr (jsonify [(''status'', JStr ''success''),
                    (''order_id'', JInt (random_randint 1000 9999 (draws env 3)))] 201)"
    unfolding create_order_response by auto
  from create_order_logger_success[OF res ok] obtain amount customer where
    lg: "logger (fst (create_order env req st)) = logger st @
      [\<lparr>e_level = INFO, e_message = [Text ''Order created successfully''],
        e_extra = [(''order_id'', JInt (random_randint 1000 9999 (draws env 2))),
                   (''amount'', amount), (''customer'', customer)]\<rparr>]"
    by blast
  have hr: "handle_request env req st =
      (fst (create_order env req st),
       jsonify [(''status'', JStr ''success''),
                (''order_id'', JInt (random_randint 1000 9999 (draws env 3)))] 201)"
    using res c unfolding handle_request_orders[OF assms(1,2)] by simp
  have r2: "1000 \<le> random_randint 1000 9999 (draws env 2) \<and> random_randint 1000 9999 (draws env 2) \<le> 9999"
    by (rule randint_range) simp
  have r3: "1000 \<le> random_randint 1000 9999 (draws env 3) \<and> random_randint 1000 9999 (draws env 3) \<le> 9999"
    by (rule randint_range) simp
  have first: "\<exists>logged returned amount customer.
            logged = random_randint 1000 9999 (draws env 2) \<and>
            returned = random_randint 1000 9999 (draws env 3) \<and>
            1000 \<le> logged \<and> logged \<le> 9999 \<and> 1000 \<le> returned \<and> returned \<le> 9999 \<and>
            logger (fst (handle_request env req st)) = logger st @
              [\<lparr>e_level = INFO, e_message = [Text ''Order created successfully''],
                e_extra = [(''order_id'', JInt logged), (''amount'', amount),
                           (''customer'', customer)]\<rparr>] \<and>
            payload (snd (handle_request env req st)) =
              Json (JObj [(''status'', JStr ''success''), (''order_id'', JInt returned)])"
    using r2 r3 lg by (simp add: hr jsonify_def)
  have second: "\<exists>env'. status (snd (handle_request env' req st)) = 201 \<and>
               random_randint 1000 9999 (draws env' 2) = a \<and>
               random_randint 1000 9999 (draws env' 3) = b"
    if ab: "1000 \<le> a \<and> a \<le> 9999 \<and> 1000 \<le> b \<and> b \<le> 9999" for a b
  proof -
    let ?env = "env\<lparr>draws := (draws env)(2 := nat (a - 1000), 3 := nat (b - 1000))\<rparr>"
    have "order_success ?env" using ok by (simp add: order_success_def)
    with body have "status (snd (handle_request ?env req st)) = 201"
      unfolding orders_201[OF assms(1,2)] by simp
    moreover have "random_randint 1000 9999 (draws ?env 2) = a"
      using ab randint_onto[of 1000 a 9999] by simp
    moreover have "random_randint 1000 9999 (draws ?env 3) = b"
      using ab randint_onto[of 1000 b 9999] by simp
    ultimately show ?thesis by blast
  qed
  from second[of 1000 1001] have third:
    "\<exists>env'. status (snd (handle_request env' req st)) = 201 \<and>
       random_randint 1000 9999 (draws env' 2) \<noteq> random_randint 1000 9999 (draws env' 3)"
    by auto
  from first second third show ?thesis by blast
qed

theorem order_ids_drawn_separately_witness:
  "\<exists>amount customer.
     logger (fst (handle_request
        \<lparr>draws = (\<lambda>i. if i = 1 then 2 ^ 52 else i), utcnow_isoformat = ''2025-01-01T00:00:00'',
       library_collectors = [], static_response = (\<lambda>f. None)\<rparr>
        \<lparr>r_method = ''POST'', r_path = ''/api/orders'', r_user_agent = None,
          r_json = JObj [(''amount'', JInt 100), (''customer'', JStr ''alice'')]\<rparr>
        (init 0 0))) =
       [\<lparr>e_level = INFO, e_message = [Text ''Order created successfully''],
         e_extra = [(''order_id'', JInt 1002), (''amount'', amount), (''customer'', customer)]\<rparr>]
     \<and> payload (snd (handle_request
        \<lparr>draws = (\<lambda>i. if i = 1 then 2 ^ 52 else i), utcnow_isoformat = ''2025-01-01T00:00:00'',
       library_collectors = [], static_response = (\<lambda>f. None)\<rparr>
        \<lparr>r_method = ''POST'', r_path = ''/api/orders'', r_user_agent = None,
          r_json = JObj [(''amount'', JInt 100), (''customer'', JStr ''alice'')]\<rparr>
        (init 0 0))) =
       Json (JObj [(''status'', JStr ''success''), (''order_id'', JInt 1003)])"
proof -
  let ?req = "\<lparr>r_method = ''POST'', r_path = ''/api/orders'', r_user_agent = None,
                r_json = JObj [(''amount'', JInt 100), (''customer'', JStr ''alice'')]\<rparr>"
  let ?env = "\<lparr>draws = (\<lambda>i. if i = 1 then 2 ^ 52 else i),
                utcnow_isoformat = ''2025-01-01T00:00:00'',
       library_collectors = [], static_response = (\<lambda>f. None)\<rparr>"
  have m: "r_method ?req = ''POST''" and p: "r_path ?req = ''/api/orders''"
    by simp_all
  have s: "status (snd (handle_request ?env ?req (init 0 0))) = 201"
    unfolding orders_201[OF m p] by (simp add: order_success_def random_random_def)
  have l: "logger (init 0 0) = []"
    by (simp add: init_def Let_def)
  have d: "random_randint 1000 9999 (draws ?env 2) = 1002"
    "random_randint 1000 9999 (draws ?env 3) = 1003"
    by (simp_all add: random_randint_def)
  from order_ids_drawn_separately[OF m p s, THEN conjunct1] show ?thesis
    unfolding l d by auto
qed

lemma invoked_orders:
  assumes "r_method req = ''POST''" and "r_path req = ''/api/orders''"
  shows "invoked req = Some Create_order"
  using assms by (simp add: invoked_def url_map_orders)

lemma orders_response:
  assumes "r_method req = ''POST''" and "r_path req = ''/api/orders''"
  shows "snd (handle_request env req st) =
     (case snd (create_order env req st) of
        Inr resp \<Rightarrow> resp
      | Inl error \<Rightarrow> jsonify [(''error'', JStr ''Internal server error'')] 500)"
  unfolding handle_request_orders[OF assms]
  by (cases "create_order env req st") (simp add: internal_error_def split: sum.splits)

lemma orders_order_value:
  assumes "r_method req = ''POST''" and "r_path req = ''/api/orders''"
  shows "order_value (fst (handle_request env req st)) = order_value (fst (create_order env req st))"
  by (subst handle_request_fst[where P = order_value])
     (simp_all add: internal_error_def not_found_def invoked_orders[OF assms])

text \<open>
  C1, as the code has it. For a \<^verbatim>\<open>POST\<close> to \<^verbatim>\<open>/api/orders\<close> whose JSON body is an object
  without the field \<^verbatim>\<open>amount\<close>, the handler completes with 201 or 400, and on the success
  branch the value it observes into \<^verbatim>\<open>order_value_dollars\<close> is 0 (the failure branch
  observes nothing).
\<close>

theorem create_order_amount_default:
  assumes "r_method req = ''POST''" and "r_path req = ''/api/orders''"
    and "r_json req = JObj items" and "''amount'' \<notin> fst ` set items"
  shows "(status (snd (handle_request env req st)) = 201 \<or>
          status (snd (handle_request env req st)) = 400)
       \<and> (if order_success env
          then status (snd (handle_request env req st)) = 201 \<and>
               histogram_samples (order_value (fst (handle_request env req st))) [] =
                 histogram_samples (order_value st) [] @ [0]
          else status (snd (handle_request env req st)) = 400 \<and>
               order_value (fst (handle_request env req st)) = order_value st)"
proof -
  have none: "map_of (rev items) ''amount'' = None"
    using assms(4) by (simp add: map_of_eq_None_iff)
  have g: "py_get (r_json req) ''amount'' (JInt 0) = Inr (JInt 0)"
    using assms(3) none by simp
  show ?thesis
    unfolding orders_response[OF assms(1,2)] orders_order_value[OF assms(1,2)]
      create_order_response create_order_order_value g
    by (simp add: jsonify_def histogram_samples_put)
qed

theorem create_order_amount_default_witness:
  "status (snd (handle_request
      \<lparr>draws = (\<lambda>i. 2 ^ 52), utcnow_isoformat = ''2025-01-01T00:00:00'',
       library_collectors = [], static_response = (\<lambda>f. None)\<rparr>
      \<lparr>r_method = ''POST'', r_path = ''/api/orders'', r_user_agent = None,
        r_json = JObj [(''customer'', JStr ''alice'')]\<rparr>
      (init 0 0))) = 201
   \<and> histogram_samples (order_value (fst (handle_request
      \<lparr>draws = (\<lambda>i. 2 ^ 52), utcnow_isoformat = ''2025-01-01T00:00:00'',
       library_collectors = [], static_response = (\<lambda>f. None)\<rparr>
      \<lparr>r_method = ''POST'', r_path = ''/api/orders'', r_user_agent = None,
        r_json = JObj [(''customer'', JStr ''alice'')]\<rparr>
      (init 0 0)))) [] = [0]"
proof -
  let ?req = "\<lparr>r_method = ''POST'', r_path = ''/api/orders'', r_user_agent = None,
        r_json = JObj [(''customer'', JStr ''alice'')]\<rparr>"
  let ?env = "\<lparr>draws = (\<lambda>i. 2 ^ 52), utcnow_isoformat = ''2025-01-01T00:00:00'',
       library_collectors = [], static_response = (\<lambda>f. None)\<rparr>"
  have m: "r_method ?req = ''POST''" and p: "r_path ?req = ''/api/orders''"
    and j: "r_json ?req = JObj [(''customer'', JStr ''alice'')]"
    and a: "''amount'' \<notin> fst ` set [(''customer'', JStr ''alice'')]"
    by simp_all
  have s: "order_success ?env"
    by (simp add: order_success_def random_random_def)
  have h: "histogram_samples (order_value (init 0 0)) [] = []"
    by (simp add: init_def Let_def Histogram_def histogram_samples_def)
  from create_order_amount_default[OF m p j a, of ?env "init 0 0"] s show ?thesis
    unfolding h by simp
qed

text \<open>
  C1 as stated also promises this for a request without a JSON body and for an amount
  that is not a number. The handler calls \<^verbatim>\<open>.get\<close> on whatever \<^verbatim>\<open>get_json()\<close> returned and
  hands the amount to \<^verbatim>\<open>observe\<close> as it is: with the body \<^verbatim>\<open>null\<close> (\<^verbatim>\<open>None\<close>) both branches
  raise and the answer is 500, and with \<^verbatim>\<open>{"amount":"abc"}\<close> the success branch raises and
  the answer is 500; in neither case is 0 observed.
\<close>

theorem create_order_amount_default_counterexample:
  "status (snd (handle_request
      \<lparr>draws = (\<lambda>i. 2 ^ 52), utcnow_isoformat = ''2025-01-01T00:00:00'',
       library_collectors = [], static_response = (\<lambda>f. None)\<rparr>
      \<lparr>r_method = ''POST'', r_path = ''/api/orders'', r_user_agent = None, r_json = JNull\<rparr>
      (init 0 0))) = 500
   \<and> histogram_samples (order_value (fst (handle_request
      \<lparr>draws = (\<lambda>i. 2 ^ 52), utcnow_isoformat = ''2025-01-01T00:00:00'',
       library_collectors = [], static_response = (\<lambda>f. None)\<rparr>
      \<lparr>r_method = ''POST'', r_path = ''/api/orders'', r_user_agent = None, r_json = JNull\<rparr>
      (init 0 0)))) [] = []
   \<and> status (snd (handle_request
      \<lparr>draws = (\<lambda>i. 0), utcnow_isoformat = ''2025-01-01T00:00:00'',
       library_collectors = [], static_response = (\<lambda>f. None)\<rparr>
      \<lparr>r_method = ''POST'', r_path = ''/api/orders'', r_user_agent = None, r_json = JNull\<rparr>
      (init 0 0))) = 500
   \<and> status (snd (handle_request
      \<lparr>draws = (\<lambda>i. 2 ^ 52), utcnow_isoformat = ''2025-01-01T00:00:00'',
       library_collectors = [], static_response = (\<lambda>f. None)\<rparr>
      \<lparr>r_method = ''POST'', r_path = ''/api/orders'', r_user_agent = None,
        r_json = JObj [(''amount'', JStr ''abc'')]\<rparr>
      (init 0 0))) = 500
   \<and> histogram_samples (order_value (fst (handle_request
      \<lparr>draws = (\<lambda>i. 2 ^ 52), utcnow_isoformat = ''2025-01-01T00:00:00'',
       library_collectors = [], static_response = (\<lambda>f. None)\<rparr>
      \<lparr>r_method = ''POST'', r_path = ''/api/orders'', r_user_agent = None,
        r_json = JObj [(''amount'', JStr ''abc'')]\<rparr>
      (init 0 0)))) [] = []"
  by (simp add: orders_response orders_order_value create_order_response create_order_order_value
      jsonify_def histogram_samples_put order_success_def random_random_def init_def Let_def
      Histogram_def histogram_samples_def)

section \<open>Requests that match no route\<close>

text \<open>
  C9, as the code has it. A request that matches no route is answered by the 404 handler
  when no rule of the URL map (the routes of \<^verbatim>\<open>app.py\<close> and the static rule that
  \<^verbatim>\<open>Flask(__name__)\<close> adds) takes its path, as sent or with doubled slashes merged: status 404,
  the body \<^verbatim>\<open>{"error":"Not found"}\<close>, and one warning record with the path and the method.
  Otherwise the framework answers itself and nothing is logged: with a redirect (308) when
  a rule takes the merged path and accepts the method, and with 405 when a rule takes the
  path or the merged path but not the method.
\<close>

theorem unmatched_request_response:
  assumes "\<not> route_matches req"
  shows "handle_request env req st =
     (if url_map (r_path req) = None \<and> url_map (merge_slashes (r_path req)) = None
      then (st\<lparr>logger := logger st @
               [\<lparr>e_level = WARNING, e_message = [Text ''404 Not Found''],
                 e_extra = [(''path'', JStr (r_path req)), (''method'', JStr (r_method req))]\<rparr>]\<rparr>,
            \<lparr>status = 404, payload = Json (JObj [(''error'', JStr ''Not found'')])\<rparr>)
      else if route_matches (req\<lparr>r_path := merge_slashes (r_path req)\<rparr>)
      then (st, \<lparr>status = 308, payload = Framework_body\<rparr>)
      else (st, \<lparr>status = 405, payload = Framework_body\<rparr>))"
  using assms
  by (auto simp: route_matches_def handle_request_def match_request_def not_found_def jsonify_def
      split: option.splits)

theorem unmatched_request_response_witness:
  "handle_request \<lparr>draws = (\<lambda>i. 0), utcnow_isoformat = ''2025-01-01T00:00:00'',
       library_collectors = [], static_response = (\<lambda>f. None)\<rparr>
        \<lparr>r_method = ''GET'', r_path = ''/nope'', r_user_agent = None, r_json = JNull\<rparr>
        (init 0 0) =
      ((init 0 0)\<lparr>logger :=
          [\<lparr>e_level = WARNING, e_message = [Text ''404 Not Found''],
            e_extra = [(''path'', JStr ''/nope''), (''method'', JStr ''GET'')]\<rparr>]\<rparr>,
       \<lparr>status = 404, payload = Json (JObj [(''error'', JStr ''Not found'')])\<rparr>)"
proof -
  let ?req = "\<lparr>r_method = ''GET'', r_path = ''/nope'', r_user_agent = None, r_json = JNull\<rparr>"
  have u: "url_map (r_path ?req) = None" "url_map (merge_slashes (r_path ?req)) = None"
    by (simp_all add: url_map_def)
  then have n: "\<not> route_matches ?req"
    by (simp add: route_matches_def)
  have l: "logger (init 0 0) = []"
    by (simp add: init_def Let_def)
  from unmatched_request_response[OF n, of "\<lparr>draws = (\<lambda>i. 0),
       utcnow_isoformat = ''2025-01-01T00:00:00'',
       library_collectors = [], static_response = (\<lambda>f. None)\<rparr>" "init 0 0"]
  show ?thesis
    unfolding l using u by simp
qed

text \<open>
  C9 as stated promises the 404 for every request whose method and path match no route.
  A \<^verbatim>\<open>GET\<close> of \<^verbatim>\<open>/api/orders\<close> matches none (the rule accepts \<^verbatim>\<open>POST\<close>), and is answered 405
  without a log record; so is a \<^verbatim>\<open>POST\<close> to \<^verbatim>\<open>/static/x\<close>.
\<close>

theorem unmatched_request_response_counterexample:
  "\<not> route_matches \<lparr>r_method = ''GET'', r_path = ''/api/orders'', r_user_agent = None, r_json = JNull\<rparr>
   \<and> handle_request \<lparr>draws = (\<lambda>i. 0), utcnow_isoformat = ''2025-01-01T00:00:00'',
       library_collectors = [], static_response = (\<lambda>f. None)\<rparr>
        \<lparr>r_method = ''GET'', r_path = ''/api/orders'', r_user_agent = None, r_json = JNull\<rparr>
        (init 0 0) =
      (init 0 0, \<lparr>status = 405, payload = Framework_body\<rparr>)
   \<and> \<not> route_matches \<lparr>r_method = ''POST'', r_path = ''/static/x'', r_user_agent = None, r_json = JNull\<rparr>
   \<and> handle_request \<lparr>draws = (\<lambda>i. 0), utcnow_isoformat = ''2025-01-01T00:00:00'',
       library_collectors = [], static_response = (\<lambda>f. None)\<rparr>
        \<lparr>r_method = ''POST'', r_path = ''/static/x'', r_user_agent = None, r_json = JNull\<rparr>
        (init 0 0) =
      (init 0 0, \<lparr>status = 405, payload = Framework_body\<rparr>)"
  by (simp add: route_matches_def handle_request_def match_request_def url_map_def)

section \<open>Query durations\<close>

lemma create_order_duration:
  "database_query_duration (fst (create_order env req st)) =
     (database_query_duration st)\<lparr>h_children :=
        put [(''query_type'', ''insert'')]
          (histogram_samples (database_query_duration st) [(''query_type'', ''insert'')]
             @ [random_uniform (1 / 100) (1 / 10) (draws env 0)])
          (h_children (database_query_duration st))\<rparr>"
  by (cases "r_json req")
     (simp_all add: create_order_def action_defs Let_def split: sum.splits option.splits)

lemma create_order_clock:
  "clock (fst (create_order env req st)) = clock st + random_uniform (1 / 100) (1 / 10) (draws env 0)"
  by (cases "r_json req")
     (simp_all add: create_order_def action_defs Let_def split: sum.splits option.splits)

lemma get_user_duration:
  "database_query_duration (fst (get_user user_id env st)) =
     (database_query_duration st)\<lparr>h_children :=
        put [(''query_type'', ''select'')]
          (histogram_samples (database_query_duration st) [(''query_type'', ''select'')]
             @ [random_uniform (5 / 100) (3 / 10) (draws env 0)])
          (h_children (database_query_duration st))\<rparr>"
  by (simp add: get_user_def action_defs)

lemma get_user_clock:
  "clock (fst (get_user user_id env st)) = clock st + random_uniform (5 / 100) (3 / 10) (draws env 0)"
  by (simp add: get_user_def action_defs)

lemma url_map_users:
  assumes "user_id \<noteq> []" and "CHR ''/'' \<notin> set user_id"
  shows "url_map (''/api/users/'' @ user_id) = Some (Get_user user_id)"
  using assms by (simp add: url_map_def)

lemma invoked_users:
  assumes "r_method req = ''GET''" and "r_path req = ''/api/users/'' @ user_id"
    and "user_id \<noteq> []" and "CHR ''/'' \<notin> set user_id"
  shows "invoked req = Some (Get_user user_id)"
  using assms(1,2) url_map_users[OF assms(3,4)] by (simp add: invoked_def)

lemma histogram_named_duration:
  assumes "instrument_names st =
     [''orders_total'', ''order_value_dollars'', ''active_users'', ''database_query_duration_seconds'']"
  shows "histogram_named st ''database_query_duration_seconds'' = Some (database_query_duration st)"
    and "histogram_named st ''database_query_duration'' = None"
  using assms by (simp_all add: histogram_named_def instrument_names_def)

lemma reachable_names:
  "instrument_names (run calls (init r t0)) =
     [''orders_total'', ''order_value_dollars'', ''active_users'', ''database_query_duration_seconds'']"
  by (simp add: run_names init_names)

text \<open>
  C6, as the code has it. In any state the process reaches, a \<^verbatim>\<open>POST\<close> to \<^verbatim>\<open>/api/orders\<close>
  sleeps the simulated insert latency and appends it to the samples that the histogram
  registered as \<^verbatim>\<open>database_query_duration_seconds\<close> keeps for \<^verbatim>\<open>query_type=insert\<close>, and a
  \<^verbatim>\<open>GET\<close> of \<^verbatim>\<open>/api/users/{user_id}\<close> does the same with the simulated lookup latency for
  \<^verbatim>\<open>query_type=select\<close>.
\<close>

theorem database_query_duration_recorded:
  assumes "st = run calls (init r t0)" and "st' = fst (handle_request env req st)"
  shows "(r_method req = ''POST'' \<and> r_path req = ''/api/orders'' \<longrightarrow>
           (\<exists>latency h h'. latency = random_uniform (1 / 100) (1 / 10) (draws env 0) \<and>
              clock st' = clock st + latency \<and>
              histogram_named st ''database_query_duration_seconds'' = Some h \<and>
              histogram_named st' ''database_query_duration_seconds'' = Some h' \<and>
              histogram_samples h' [(''query_type'', ''insert'')] =
                histogram_samples h [(''query_type'', ''insert'')] @ [latency]))
       \<and> (r_method req = ''GET'' \<and> r_path req = ''/api/users/'' @ user_id \<and>
            user_id \<noteq> [] \<and> CHR ''/'' \<notin> set user_id \<longrightarrow>
           (\<exists>latency h h'. latency = random_uniform (5 / 100) (3 / 10) (draws env 0) \<and>
              clock st' = clock st + latency \<and>
              histogram_named st ''database_query_duration_seconds'' = Some h \<and>
              histogram_named st' ''database_query_duration_seconds'' = Some h' \<and>
              histogram_samples h' [(''query_type'', ''select'')] =
                histogram_samples h [(''query_type'', ''select'')] @ [latency]))"
proof -
  have n: "instrument_names st =
     [''orders_total'', ''order_value_dollars'', ''active_users'', ''database_query_duration_seconds'']"
    unfolding assms(1) by (rule reachable_names)
  have n': "instrument_names st' =
     [''orders_total'', ''order_value_dollars'', ''active_users'', ''database_query_duration_seconds'']"
    unfolding assms(2) handle_request_names by (rule n)
  note hn = histogram_named_duration(1)[OF n] histogram_named_duration(1)[OF n']
  have d: "database_query_duration st' =
     (case invoked req of None \<Rightarrow> database_query_duration st
      | Some ep \<Rightarrow> database_query_duration (fst (view ep env req st)))"
    unfolding assms(2)
    by (subst handle_request_fst[where P = database_query_duration])
       (simp_all add: internal_error_def not_found_def)
  have c: "clock st' =
     (case invoked req of None \<Rightarrow> clock st | Some ep \<Rightarrow> clock (fst (view ep env req st)))"
    unfolding assms(2)
    by (subst handle_request_fst[where P = clock])
       (simp_all add: internal_error_def not_found_def)
  show ?thesis
  proof (intro conjI impI)
    assume a: "r_method req = ''POST'' \<and> r_path req = ''/api/orders''"
    then have "invoked req = Some Create_order" by (simp add: invoked_orders)
    then show "\<exists>latency h h'. latency = random_uniform (1 / 100) (1 / 10) (draws env 0) \<and>
              clock st' = clock st + latency \<and>
              histogram_named st ''database_query_duration_seconds'' = Some h \<and>
              histogram_named st' ''database_query_duration_seconds'' = Some h' \<and>
              histogram_samples h' [(''query_type'', ''insert'')] =
                histogram_samples h [(''query_type'', ''insert'')] @ [latency]"
      by (simp add: hn d c create_order_duration create_order_clock histogram_samples_put)
  next
    assume a: "r_method req = ''GET'' \<and> r_path req = ''/api/users/'' @ user_id \<and>
            user_id \<noteq> [] \<and> CHR ''/'' \<notin> set user_id"
    then have "invoked req = Some (Get_user user_id)" by (simp add: invoked_users)
    then show "\<exists>latency h h'. latency = random_uniform (5 / 100) (3 / 10) (draws env 0) \<and>
              clock st' = clock st + latency \<and>
              histogram_named st ''database_query_duration_seconds'' = Some h \<and>
              histogram_named st' ''database_query_duration_seconds'' = Some h' \<and>
              histogram_samples h' [(''query_type'', ''select'')] =
                histogram_samples h [(''query_type'', ''select'')] @ [latency]"
      by (simp add: hn d c get_user_duration get_user_clock histogram_samples_put)
  qed
qed

theorem database_query_duration_recorded_witness:
  "(\<exists>h'. histogram_named (fst (handle_request
      \<lparr>draws = (\<lambda>i. 2 ^ 52), utcnow_isoformat = ''2025-01-01T00:00:00'',
       library_collectors = [], static_response = (\<lambda>f. None)\<rparr>
      \<lparr>r_method = ''POST'', r_path = ''/api/orders'', r_user_agent = None,
        r_json = JObj [(''amount'', JInt 100), (''customer'', JStr ''alice'')]\<rparr>
      (run [] (init 0 0)))) ''database_query_duration_seconds'' = Some h'
     \<and> histogram_samples h' [(''query_type'', ''insert'')] = [11 / 200])
   \<and> (\<exists>h'. histogram_named (fst (handle_request
      \<lparr>draws = (\<lambda>i. 2 ^ 52), utcnow_isoformat = ''2025-01-01T00:00:00'',
       library_collectors = [], static_response = (\<lambda>f. None)\<rparr>
      \<lparr>r_method = ''GET'', r_path = ''/api/users/42'', r_user_agent = None, r_json = JNull\<rparr>
      (run [] (init 0 0)))) ''database_query_duration_seconds'' = Some h'
     \<and> histogram_samples h' [(''query_type'', ''select'')] = [7 / 40])"
proof -
  let ?post = "\<lparr>r_method = ''POST'', r_path = ''/api/orders'', r_user_agent = None,
        r_json = JObj [(''amount'', JInt 100), (''customer'', JStr ''alice'')]\<rparr>"
  let ?get = "\<lparr>r_method = ''GET'', r_path = ''/api/users/42'', r_user_agent = None, r_json = JNull\<rparr>"
  let ?env = "\<lparr>draws = (\<lambda>i. 2 ^ 52), utcnow_isoformat = ''2025-01-01T00:00:00'',
       library_collectors = [], static_response = (\<lambda>f. None)\<rparr>"
  have m: "r_method ?post = ''POST'' \<and> r_path ?post = ''/api/orders''"
    by simp
  have g: "r_method ?get = ''GET'' \<and> r_path ?get = ''/api/users/'' @ ''42'' \<and>
           ''42'' \<noteq> [] \<and> CHR ''/'' \<notin> set ''42''"
    by simp
  have l: "random_uniform (1 / 100) (1 / 10) (draws ?env 0) = 11 / 200"
    "random_uniform (5 / 100) (3 / 10) (draws ?env 0) = 7 / 40"
    by (simp_all add: random_uniform_def random_random_def)
  have h: "histogram_named (run [] (init 0 0)) ''database_query_duration_seconds'' =
      Some (database_query_duration (init 0 0))"
    by (simp add: histogram_named_duration(1) init_names)
  have e: "histogram_samples (database_query_duration (init 0 0)) l = []" for l
    by (simp add: init_def Let_def Histogram_def histogram_samples_def)
  have "\<exists>h'. histogram_named (fst (handle_request ?env ?post (run [] (init 0 0))))
            ''database_query_duration_seconds'' = Some h'
     \<and> histogram_samples h' [(''query_type'', ''insert'')] = [11 / 200]"
    using database_query_duration_recorded[where calls = "[]" and r = 0 and ?t0.0 = 0
        and env = ?env and req = ?post, OF refl refl, THEN conjunct1, rule_format, OF m]
    unfolding l h using e by auto
  moreover have "\<exists>h'. histogram_named (fst (handle_request ?env ?get (run [] (init 0 0))))
            ''database_query_duration_seconds'' = Some h'
     \<and> histogram_samples h' [(''query_type'', ''select'')] = [7 / 40]"
    using database_query_duration_recorded[where calls = "[]" and r = 0 and ?t0.0 = 0
        and env = ?env and req = ?get and user_id = "''42''", OF refl refl, THEN conjunct2,
        rule_format, OF g]
    unfolding l h using e by auto
  ultimately show ?thesis by blast
qed

text \<open>
  C6 as stated names the histogram \<^verbatim>\<open>database_query_duration\<close>. That is the Python variable;
  the registry has no histogram of that name, before or after either request.
\<close>

theorem database_query_duration_recorded_counterexample:
  "histogram_named (fst (handle_request
      \<lparr>draws = (\<lambda>i. 2 ^ 52), utcnow_isoformat = ''2025-01-01T00:00:00'',
       library_collectors = [], static_response = (\<lambda>f. None)\<rparr>
      \<lparr>r_method = ''POST'', r_path = ''/api/orders'', r_user_agent = None,
        r_json = JObj [(''amount'', JInt 100), (''customer'', JStr ''alice'')]\<rparr>
      (init 0 0))) ''database_query_duration'' = None
   \<and> histogram_named (fst (handle_request
      \<lparr>draws = (\<lambda>i. 2 ^ 52), utcnow_isoformat = ''2025-01-01T00:00:00'',
       library_collectors = [], static_response = (\<lambda>f. None)\<rparr>
      \<lparr>r_method = ''GET'', r_path = ''/api/users/42'', r_user_agent = None, r_json = JNull\<rparr>
      (init 0 0))) ''database_query_duration'' = None"
proof -
  have "\<And>env req. instrument_names (fst (handle_request env req (init 0 0))) =
     [''orders_total'', ''order_value_dollars'', ''active_users'', ''database_query_duration_seconds'']"
    by (simp add: handle_request_names init_names)
  then show ?thesis
    by (simp add: histogram_named_duration(2))
qed

section \<open>The active-user gauge\<close>






lemma url_map_metrics_demo: "url_map ''/api/metrics-demo'' = Some Metrics_demo"
  by (simp add: url_map_def)

lemma invoked_metrics_demo:
  assumes "r_method req = ''GET''" and "r_path req = ''/api/metrics-demo''"
  shows "invoked req = Some Metrics_demo"
  using assms by (simp add: invoked_def url_map_metrics_demo)




section \<open>Counters only grow\<close>

lemma bump_value_grows:
  "\<exists>k::nat. counter_value (bump l' m c) l = counter_value c l + real k"
proof (cases "l = l'")
  case True
  then show ?thesis by (simp add: counter_value_bump)
next
  case False
  then show ?thesis by (simp add: counter_value_bump)
qed

lemma run_bump_value:
  "\<exists>n::nat. counter_value (order_counter (run calls st)) l = counter_value (order_counter st) l + real n"
proof (induction calls arbitrary: st)
  case Nil
  show ?case by (rule exI[of _ 0]) simp
next
  case (Cons call calls)
  obtain env req where call: "call = (env, req)" by (cases call)
  let ?st = "fst (handle_request env req st)"
  obtain k :: nat where k: "counter_value (order_counter ?st) l = counter_value (order_counter st) l + real k"
  proof (cases "invoked req")
    case None
    then show ?thesis using that[of 0] by (simp add: handle_request_order_counter)
  next
    case (Some ep)
    then show ?thesis
      using that bump_value_grows unfolding handle_request_order_counter by (simp only: option.case) blast
  qed
  from Cons.IH[of ?st] obtain n :: nat where
    n: "counter_value (order_counter (run calls ?st)) l = counter_value (order_counter ?st) l + real n"
    by blast
  show ?case
    unfolding call by (rule exI[of _ "k + n"]) (simp add: k n)
qed

text \<open>
  C7. The only counter of the application is \<^verbatim>\<open>orders_total\<close>. Whatever the request, the
  counter after it is the counter before it after some number of \<^verbatim>\<open>inc()\<close> calls on one
  label combination, each adding 1. So for every label combination (\<^verbatim>\<open>status=success\<close> and
  \<^verbatim>\<open>status=failed\<close> among them) the value after a request, and after any sequence of
  requests, is the value before plus a natural number: it never decreases.
\<close>

theorem orders_total_never_decreases:
  "(\<exists>l' n. order_counter (fst (handle_request env req st)) = bump l' n (order_counter st))
   \<and> (\<exists>n::nat. counter_value (order_counter (fst (handle_request env req st))) l =
         counter_value (order_counter st) l + real n)
   \<and> (\<exists>n::nat. counter_value (order_counter (run calls st)) l =
         counter_value (order_counter st) l + real n)
   \<and> counter_value (order_counter st) l \<le>
       counter_value (order_counter (fst (handle_request env req st))) l
   \<and> counter_value (order_counter st) l \<le> counter_value (order_counter (run calls st)) l"
proof -
  have a: "\<exists>l' n. order_counter (fst (handle_request env req st)) = bump l' n (order_counter st)"
  proof (cases "invoked req")
    case None
    then have "order_counter (fst (handle_request env req st)) = bump [] 0 (order_counter st)"
      by (simp add: handle_request_order_counter)
    then show ?thesis by blast
  next
    case (Some ep)
    then show ?thesis unfolding handle_request_order_counter by simp blast
  qed
  have b: "\<exists>n::nat. counter_value (order_counter (fst (handle_request env req st))) l =
         counter_value (order_counter st) l + real n"
    using run_bump_value[of "[(env, req)]" st l] by simp
  note c = run_bump_value[of calls st l]
  from b have d: "counter_value (order_counter st) l \<le>
       counter_value (order_counter (fst (handle_request env req st))) l"
    by auto
  from c have e: "counter_value (order_counter st) l \<le> counter_value (order_counter (run calls st)) l"
    by auto
  from a b c d e show ?thesis by blast
qed

theorem orders_total_never_decreases_witness:
  "counter_value (order_counter (init 0 0)) [(''status'', ''success'')] \<le>
     counter_value (order_counter (fst (handle_request
        \<lparr>draws = (\<lambda>i. 2 ^ 52), utcnow_isoformat = ''2025-01-01T00:00:00'',
       library_collectors = [], static_response = (\<lambda>f. None)\<rparr>
        \<lparr>r_method = ''POST'', r_path = ''/api/orders'', r_user_agent = None,
          r_json = JObj [(''amount'', JInt 100), (''customer'', JStr ''alice'')]\<rparr>
        (init 0 0)))) [(''status'', ''success'')]"
  using orders_total_never_decreases[of
      "\<lparr>draws = (\<lambda>i. 2 ^ 52), utcnow_isoformat = ''2025-01-01T00:00:00'',
       library_collectors = [], static_response = (\<lambda>f. None)\<rparr>"
      "\<lparr>r_method = ''POST'', r_path = ''/api/orders'', r_user_agent = None,
        r_json = JObj [(''amount'', JInt 100), (''customer'', JStr ''alice'')]\<rparr>"
      "init 0 0" "[(''status'', ''success'')]" "[]"]
  by blast

section \<open>The metrics snapshot\<close>

lemma url_map_metrics: "url_map ''/metrics'' = Some Metrics_endpoint"
  by (simp add: url_map_def)

lemma handle_request_metrics:
  assumes "r_method req = ''GET''" and "r_path req = ''/metrics''"
  shows "handle_request env req st =
     (st, \<lparr>status = 200, payload = Exposition (generate_latest (library_collectors env) st)\<rparr>)"
  using assms
  by (simp add: handle_request_def match_request_def url_map_metrics metrics_endpoint_def)

lemma set_generate_latest:
  "set (generate_latest lib st) = set (application_families st) \<union> set lib"
  by (simp add: generate_latest_def)

lemma sample_lookup_append:
  "sample_lookup (xs @ ys) n l =
     (case sample_lookup xs n l of None \<Rightarrow> sample_lookup ys n l | Some v \<Rightarrow> Some v)"
  by (induction xs n l rule: sample_lookup.induct) simp_all

lemma sample_lookup_counter:
  "sample_lookup (map (\<lambda>(l, v). Sample n l v) kvs) n l = map_of kvs l"
  by (induction kvs) auto

lemma sample_lookup_absent:
  assumes "\<forall>s \<in> set ss. sample_name s \<noteq> n"
  shows "sample_lookup ss n l = None"
  using assms by (induction ss n l rule: sample_lookup.induct) simp_all

lemma sample_lookup_families_absent:
  assumes "\<forall>f \<in> set fs. \<forall>s \<in> set (f_samples f). sample_name s \<noteq> n"
  shows "sample_lookup (concat (map f_samples fs)) n l = None"
  using assms by (intro sample_lookup_absent) auto

text \<open>
  When one family alone has lines under a sample name, a snapshot gives that family's
  value for the name, wherever the family stands in it.
\<close>

lemma sample_lookup_one_family:
  assumes "c \<in> set fs"
    and "\<forall>f \<in> set fs. f \<noteq> c \<longrightarrow> (\<forall>s \<in> set (f_samples f). sample_name s \<noteq> n)"
  shows "sample_lookup (concat (map f_samples fs)) n l = sample_lookup (f_samples c) n l"
  using assms
proof (induction fs)
  case Nil
  then show ?case by simp
next
  case (Cons f fs)
  show ?case
  proof (cases "f = c")
    case True
    show ?thesis
    proof (cases "sample_lookup (f_samples c) n l")
      case (Some v)
      with True show ?thesis by (simp add: sample_lookup_append)
    next
      case None
      have "sample_lookup (concat (map f_samples fs)) n l = None"
      proof (cases "c \<in> set fs")
        case True
        with Cons.IH Cons.prems(2) None show ?thesis by simp
      next
        case False
        with Cons.prems(2) have "\<forall>f \<in> set fs. \<forall>s \<in> set (f_samples f). sample_name s \<noteq> n"
          by auto
        then show ?thesis by (rule sample_lookup_families_absent)
      qed
      with True None show ?thesis by (simp add: sample_lookup_append)
    qed
  next
    case False
    with Cons.prems(2) have "\<forall>s \<in> set (f_samples f). sample_name s \<noteq> n"
      by simp
    then have "sample_lookup (f_samples f) n l = None"
      by (rule sample_lookup_absent)
    moreover from False Cons.prems(1) have "c \<in> set fs"
      by simp
    ultimately show ?thesis
      using Cons.IH Cons.prems(2) by (simp add: sample_lookup_append)
  qed
qed

lemma histogram_sample_names:
  assumes "s \<in> set (f_samples (collect_histogram h))"
  shows "sample_name s = h_name h @ ''_count'' \<or> sample_name s = h_name h @ ''_sum''"
  using assms by (auto simp: collect_histogram_def)

lemma snapshot_orders_total:
  assumes "instrument_names st =
     [''orders_total'', ''order_value_dollars'', ''active_users'', ''database_query_duration_seconds'']"
    and "registered_apart lib"
  shows "snapshot_value (generate_latest lib st) ''orders_total'' l =
     map_of (c_children (order_counter st)) l"
proof -
  from assms(1) have n: "c_name (order_counter st) = ''orders_total''"
    "h_name (order_value st) = ''order_value_dollars''"
    "g_name (active_users st) = ''active_users''"
    "h_name (database_query_duration st) = ''database_query_duration_seconds''"
    by (simp_all add: instrument_names_def)
  let ?c = "collect_counter (order_counter st)"
  have mem: "?c \<in> set (generate_latest lib st)"
    by (simp add: set_generate_latest application_families_def)
  have others: "\<forall>f \<in> set (generate_latest lib st).
      f \<noteq> ?c \<longrightarrow> (\<forall>s \<in> set (f_samples f). sample_name s \<noteq> ''orders_total'')"
  proof (intro ballI impI)
    fix f s
    assume f: "f \<in> set (generate_latest lib st)" and fc: "f \<noteq> ?c" and s: "s \<in> set (f_samples f)"
    from f consider "f = flask_app_info" | "f = ?c" | "f = collect_histogram (order_value st)"
      | "f = collect_gauge (active_users st)"
      | "f = collect_histogram (database_query_duration st)" | "f \<in> set lib"
      by (auto simp: set_generate_latest application_families_def)
    then show "sample_name s \<noteq> ''orders_total''"
    proof cases
      case 1
      with s show ?thesis by (simp add: flask_app_info_def)
    next
      case 2
      with fc show ?thesis by simp
    next
      case 3
      with s histogram_sample_names[of s "order_value st"] show ?thesis
        by (auto simp: n)
    next
      case 4
      with s show ?thesis by (simp add: collect_gauge_def n)
    next
      case 5
      with s histogram_sample_names[of s "database_query_duration st"] show ?thesis
        by (auto simp: n)
    next
      case 6
      with s assms(2) show ?thesis by (auto simp: registered_apart_def)
    qed
  qed
  have "sample_lookup (f_samples ?c) ''orders_total'' l = map_of (c_children (order_counter st)) l"
    unfolding collect_counter_def n by (simp add: sample_lookup_counter)
  with sample_lookup_one_family[OF mem others, of l] show ?thesis
    by (simp add: snapshot_value_def)
qed

lemma step_success_children:
  "map_of (c_children (order_counter (fst (handle_request env req st)))) [(''status'', ''success'')] =
     (let k = (if took_success_branch (env, req) then 1 else 0) + loop_iterations (env, req) in
      if k = 0 then map_of (c_children (order_counter st)) [(''status'', ''success'')]
      else Some (counter_value (order_counter st) [(''status'', ''success'')] + real k))"
proof (cases "invoked req")
  case None
  then show ?thesis
    by (simp add: handle_request_order_counter took_success_branch_def loop_iterations_def)
next
  case (Some ep)
  then show ?thesis
    by (cases ep)
       (simp_all add: handle_request_order_counter took_success_branch_def loop_iterations_def
          map_of_bump map_of_put order_label_def Let_def)
qed

lemma run_success_children:
  "map_of (c_children (order_counter (run calls st))) [(''status'', ''success'')] =
     (let n = length (filter took_success_branch calls) + sum_list (map loop_iterations calls) in
      if n = 0 then map_of (c_children (order_counter st)) [(''status'', ''success'')]
      else Some (counter_value (order_counter st) [(''status'', ''success'')] + real n))"
proof (induction calls arbitrary: st)
  case Nil
  then show ?case by simp
next
  case (Cons call calls)
  obtain env req where call: "call = (env, req)" by (cases call)
  define st1 where "st1 = fst (handle_request env req st)"
  define k where "k = (if took_success_branch (env, req) then 1 else 0) + loop_iterations (env, req)"
  define n where "n = length (filter took_success_branch calls) + sum_list (map loop_iterations calls)"
  define f where "f = (\<lambda>s::state. map_of (c_children (order_counter s)) [(''status'', ''success'')])"
  define v where "v = (\<lambda>s::state. counter_value (order_counter s) [(''status'', ''success'')])"
  have vf: "v s = (case f s of None \<Rightarrow> 0 | Some x \<Rightarrow> x)" for s
    by (simp add: v_def f_def counter_value_def)
  have total: "length (filter took_success_branch (call # calls)) +
      sum_list (map loop_iterations (call # calls)) = k + n"
    unfolding call k_def n_def by simp
  have step: "f st1 = (if k = 0 then f st else Some (v st + real k))"
    using step_success_children[of env req st] unfolding st1_def k_def f_def v_def
    by (simp only: Let_def)
  have ih: "f (run calls st1) = (if n = 0 then f st1 else Some (v st1 + real n))"
    using Cons.IH[of st1] unfolding n_def f_def v_def by (simp only: Let_def)
  have "f (run calls st1) = (if k + n = 0 then f st else Some (v st + real (k + n)))"
  proof (cases "k = 0")
    case True
    with step have "f st1 = f st" by simp
    then have "v st1 = v st" by (simp add: vf)
    with ih \<open>f st1 = f st\<close> True show ?thesis by simp
  next
    case False
    with step have "f st1 = Some (v st + real k)" by simp
    then have "v st1 = v st + real k" by (simp add: vf)
    with ih \<open>f st1 = Some (v st + real k)\<close> False show ?thesis by simp
  qed
  moreover have "run (call # calls) st = run calls st1"
    unfolding call st1_def by simp
  ultimately have "f (run (call # calls) st) =
      (if k + n = 0 then f st else Some (v st + real (k + n)))"
    by simp
  then show ?case
    unfolding total f_def v_def by (simp only: Let_def)
qed

lemma init_success_children:
  "map_of (c_children (order_counter (init r t0))) l = None"
  by (simp add: init_def Let_def Counter_def)

text \<open>
  C3, as the code has it. After any sequence of requests in which \<^verbatim>\<open>orders_total\<close> has
  been incremented for \<^verbatim>\<open>status="success"\<close> at least once, a \<^verbatim>\<open>GET\<close> of \<^verbatim>\<open>/metrics\<close> returns
  a snapshot whose line for \<^verbatim>\<open>orders_total{status="success"}\<close> carries exactly the number of
  those increments: the number of \<^verbatim>\<open>create_order\<close> invocations that took the success branch
  plus the iterations of the loop over all \<^verbatim>\<open>metrics_demo\<close> invocations. Before the first such
  increment the snapshot has no line for that label combination.
\<close>

theorem orders_total_success_exact:
  assumes "r_method req = ''GET''" and "r_path req = ''/metrics''"
    and "st = run calls (init r t0)"
    and "n = length (filter took_success_branch calls) + sum_list (map loop_iterations calls)"
    and "registered_apart (library_collectors env)"
  shows "\<exists>snap. handle_request env req st = (st, \<lparr>status = 200, payload = Exposition snap\<rparr>)
           \<and> snapshot_value snap ''orders_total'' [(''status'', ''success'')] =
               (if n = 0 then None else Some (real n))
           \<and> counter_value (order_counter st) [(''status'', ''success'')] = real n"
proof -
  have names: "instrument_names st =
     [''orders_total'', ''order_value_dollars'', ''active_users'', ''database_query_duration_seconds'']"
    unfolding assms(3) by (rule reachable_names)
  have ch: "map_of (c_children (order_counter st)) [(''status'', ''success'')] =
      (if n = 0 then None else Some (real n))"
    unfolding assms(3) run_success_children assms(4)
    by (simp add: Let_def init_success_children counter_value_def)
  let ?snap = "generate_latest (library_collectors env) st"
  have v: "snapshot_value ?snap ''orders_total'' [(''status'', ''success'')] =
      (if n = 0 then None else Some (real n))"
    unfolding snapshot_orders_total[OF names assms(5)] by (rule ch)
  have a: "handle_request env req st = (st, \<lparr>status = 200, payload = Exposition ?snap\<rparr>)"
    by (rule handle_request_metrics[OF assms(1,2)])
  have d: "counter_value (order_counter st) [(''status'', ''success'')] = real n"
    unfolding counter_value_def ch by simp
  show ?thesis
    by (rule exI[of _ ?snap]) (simp only: a v d simp_thms)
qed

theorem orders_total_success_exact_witness:
  "\<exists>snap. snd (handle_request
      \<lparr>draws = (\<lambda>i. 7), utcnow_isoformat = ''2025-01-01T00:00:00'',
       library_collectors =
         [\<lparr>f_name = ''python_gc_objects_collected_total'', f_kind = Kind_counter,
           f_samples = [Sample ''python_gc_objects_collected_total'' [(''generation'', ''0'')] 10]\<rparr>],
       static_response = (\<lambda>f. None)\<rparr>
      \<lparr>r_method = ''GET'', r_path = ''/metrics'', r_user_agent = None, r_json = JNull\<rparr>
      (run [(\<lparr>draws = (\<lambda>i. 2 ^ 52), utcnow_isoformat = ''2025-01-01T00:00:00'',
       library_collectors = [], static_response = (\<lambda>f. None)\<rparr>,
             \<lparr>r_method = ''POST'', r_path = ''/api/orders'', r_user_agent = None,
               r_json = JObj [(''amount'', JInt 100), (''customer'', JStr ''alice'')]\<rparr>),
            (\<lparr>draws = (\<lambda>i. 7), utcnow_isoformat = ''2025-01-01T00:00:00'',
       library_collectors = [], static_response = (\<lambda>f. None)\<rparr>,
             \<lparr>r_method = ''GET'', r_path = ''/api/metrics-demo'', r_user_agent = None,
               r_json = JNull\<rparr>)]
         (init 0 0))) = \<lparr>status = 200, payload = Exposition snap\<rparr>
     \<and> snapshot_value snap ''orders_total'' [(''status'', ''success'')] = Some 4"
proof -
  let ?metrics = "\<lparr>r_method = ''GET'', r_path = ''/metrics'', r_user_agent = None, r_json = JNull\<rparr>"
  let ?post = "\<lparr>r_method = ''POST'', r_path = ''/api/orders'', r_user_agent = None,
                 r_json = JObj [(''amount'', JInt 100), (''customer'', JStr ''alice'')]\<rparr>"
  let ?demo = "\<lparr>r_method = ''GET'', r_path = ''/api/metrics-demo'', r_user_agent = None,
                 r_json = JNull\<rparr>"
  let ?e1 = "\<lparr>draws = (\<lambda>i. 2 ^ 52), utcnow_isoformat = ''2025-01-01T00:00:00'',
       library_collectors = [], static_response = (\<lambda>f. None)\<rparr>"
  let ?e2 = "\<lparr>draws = (\<lambda>i. 7), utcnow_isoformat = ''2025-01-01T00:00:00'',
       library_collectors = [], static_response = (\<lambda>f. None)\<rparr>"
  let ?e3 = "\<lparr>draws = (\<lambda>i. 7), utcnow_isoformat = ''2025-01-01T00:00:00'',
       library_collectors =
         [\<lparr>f_name = ''python_gc_objects_collected_total'', f_kind = Kind_counter,
           f_samples = [Sample ''python_gc_objects_collected_total'' [(''generation'', ''0'')] 10]\<rparr>],
       static_response = (\<lambda>f. None)\<rparr>"
  have m: "r_method ?metrics = ''GET''" and p: "r_path ?metrics = ''/metrics''"
    by simp_all
  have a: "registered_apart (library_collectors ?e3)"
    by (simp add: registered_apart_def)
  have i1: "invoked ?post = Some Create_order"
    by (simp add: invoked_orders)
  have i2: "invoked ?demo = Some Metrics_demo"
    by (simp add: invoked_metrics_demo)
  have s1: "order_success ?e1"
    by (simp add: order_success_def random_random_def)
  have d2: "demo_iterations ?e2 = 3"
    by (simp add: demo_iterations_def random_randint_def)
  have n: "length (filter took_success_branch [(?e1, ?post), (?e2, ?demo)]) +
           sum_list (map loop_iterations [(?e1, ?post), (?e2, ?demo)]) = 4"
    using s1 by (simp add: took_success_branch_def loop_iterations_def i1 i2 d2)
  from orders_total_success_exact[OF m p refl refl a,
      of "[(?e1, ?post), (?e2, ?demo)]" 0 0]
  show ?thesis
    unfolding n by auto
qed

text \<open>
  C3 as stated gives the snapshot a value for \<^verbatim>\<open>orders_total{status="success"}\<close> at every
  point, equal to the number of increments. At process start, and after an order that was
  declined, that number is 0 and the snapshot has no line for the label combination: a
  labelled counter gets the line with the first \<^verbatim>\<open>.labels(status='success')\<close> call.
\<close>

theorem orders_total_success_exact_counterexample:
  "snd (handle_request
      \<lparr>draws = (\<lambda>i. 0), utcnow_isoformat = ''2025-01-01T00:00:00'',
       library_collectors = [], static_response = (\<lambda>f. None)\<rparr>
      \<lparr>r_method = ''GET'', r_path = ''/metrics'', r_user_agent = None, r_json = JNull\<rparr>
      (run [] (init 0 0))) =
     \<lparr>status = 200, payload = Exposition (generate_latest [] (run [] (init 0 0)))\<rparr>
   \<and> snapshot_value (generate_latest [] (run [] (init 0 0)))
         ''orders_total'' [(''status'', ''success'')] = None
   \<and> length (filter took_success_branch []) + sum_list (map loop_iterations []) = (0::nat)
   \<and> snapshot_value (generate_latest []
         (run [(\<lparr>draws = (\<lambda>i. 0), utcnow_isoformat = ''2025-01-01T00:00:00'',
       library_collectors = [], static_response = (\<lambda>f. None)\<rparr>,
                \<lparr>r_method = ''POST'', r_path = ''/api/orders'', r_user_agent = None,
                  r_json = JObj [(''amount'', JInt 100), (''customer'', JStr ''alice'')]\<rparr>)]
            (init 0 0)))
         ''orders_total'' [(''status'', ''success'')] = None"
proof -
  let ?metrics = "\<lparr>r_method = ''GET'', r_path = ''/metrics'', r_user_agent = None, r_json = JNull\<rparr>"
  let ?post = "\<lparr>r_method = ''POST'', r_path = ''/api/orders'', r_user_agent = None,
                 r_json = JObj [(''amount'', JInt 100), (''customer'', JStr ''alice'')]\<rparr>"
  let ?e = "\<lparr>draws = (\<lambda>i. 0), utcnow_isoformat = ''2025-01-01T00:00:00'',
       library_collectors = [], static_response = (\<lambda>f. None)\<rparr>"
  have apart: "registered_apart []"
    by (simp add: registered_apart_def)
  have a: "snd (handle_request ?e ?metrics (run [] (init 0 0))) =
     \<lparr>status = 200, payload = Exposition (generate_latest [] (run [] (init 0 0)))\<rparr>"
    by (simp add: handle_request_metrics)
  have b: "snapshot_value (generate_latest [] (run [] (init 0 0)))
         ''orders_total'' [(''status'', ''success'')] = None"
    using snapshot_orders_total[OF reachable_names apart, of "[]" 0 0]
    by (simp add: init_success_children)
  have f: "\<not> order_success ?e"
    by (simp add: order_success_def random_random_def)
  have "length (filter took_success_branch [(?e, ?post)]) +
        sum_list (map loop_iterations [(?e, ?post)]) = 0"
    using f by (simp add: took_success_branch_def loop_iterations_def invoked_orders)
  then have "map_of (c_children (order_counter (run [(?e, ?post)] (init 0 0))))
      [(''status'', ''success'')] = None"
    unfolding run_success_children by (simp add: Let_def init_success_children)
  then have c: "snapshot_value (generate_latest [] (run [(?e, ?post)] (init 0 0)))
         ''orders_total'' [(''status'', ''success'')] = None"
    using snapshot_orders_total[OF reachable_names apart, of "[(?e, ?post)]" 0 0]
    by simp
  from a b c show ?thesis by simp
qed





end
